theory Spec2Isabelle
  imports Complex_Main "HOL-Library.Char_ord" "HOL-Library.List_Lexorder" "HOL-Library.Word"
begin

section \<open>Data model\<close>

text \<open>
  A field of the CSV file as \<^verbatim>\<open>pd.read_csv\<close> hands it over: nothing (pandas' NaN), a
  text that reads as a number, or any other text. Numbers are rationals: the arithmetic of
  the two scripts (one sum per row, one running sum, one quotient) is taken exactly, and
  the infinities are left out. These are the fields of a column of floats or of objects;
  count columns of integers and of booleans come in a section of their own below.
\<close>

datatype cell = Missing | Number rat | Text string

text \<open>
  One incident. The same record, with other types for its fields, is a row as read
  (cells), a row after the numeric coercion, a row of the prepared frame, and the dict of
  column arrays that the browser gets (every field a list). The columns of the CSV that
  \<^verbatim>\<open>target_types_&_casualities.py\<close> never reads are carried along untouched by the
  script and are left out here.
\<close>

record ('y, 't, 'n) incident =
  iyear :: 'y
  targtype1_txt :: 't
  nkill :: 'n
  nwound :: 'n

record ('y, 't, 'n) casualty = "('y, 't, 'n) incident" +
  total_casualties :: 'n
  circle_size :: 'n

record ('y, 't, 'n, 'c) point = "('y, 't, 'n) casualty" +
  color :: 'c

text \<open>The frame: its header and its rows.\<close>

record 'r dataframe =
  columns :: "string list"
  rows :: "'r list"

type_synonym raw_row = "(cell, string option, cell) incident"
type_synonym coerced_row = "(rat option, string option, rat) incident"
type_synonym clean_row = "(rat, string, rat) incident"
type_synonym prepared_row = "(rat, string, rat) casualty"

datatype error =
    RequiredColumnNotFound string  \<comment> \<open>\<^verbatim>\<open>ValueError("Required column '...' not found in dataset")\<close>\<close>
  | CannotConvertNaN               \<comment> \<open>\<^verbatim>\<open>int(nan)\<close>: \<^verbatim>\<open>ValueError: cannot convert float NaN to integer\<close>\<close>
  | KeyError string                \<comment> \<open>pandas, on a column that the frame has not\<close>
  | IndexError                     \<comment> \<open>a tuple read past its end\<close>
  | NotImplementedError            \<comment> \<open>pandas: \<^verbatim>\<open>operator 'truediv' not implemented for bool dtypes\<close>\<close>

section \<open>\<^verbatim>\<open>load_and_prepare_data\<close>\<close>

definition required_cols :: "string list" where
  "required_cols = [''iyear'', ''targtype1_txt'', ''nkill'', ''nwound'']"

text \<open>Lines 23 to 25: the first required column that the header lacks, if any.\<close>

fun missing_column :: "string list \<Rightarrow> string list \<Rightarrow> string option" where
  "missing_column cols [] = None"
| "missing_column cols (col # rest) =
     (if col \<notin> set cols then Some col else missing_column cols rest)"

text \<open>
  \<^verbatim>\<open>pd.to_numeric(..., errors='coerce')\<close> on one field of a column of floats or of
  objects; \<open>None\<close> is NaN.
\<close>

fun to_numeric :: "cell \<Rightarrow> rat option" where
  "to_numeric (Number q) = Some q"
| "to_numeric (Text s) = None"
| "to_numeric Missing = None"

fun fillna :: "rat \<Rightarrow> rat option \<Rightarrow> rat" where
  "fillna d None = d"
| "fillna d (Some q) = q"

text \<open>Lines 28 to 30, on one row.\<close>

definition coerce_row :: "raw_row \<Rightarrow> coerced_row" where
  "coerce_row r =
     \<lparr> iyear = to_numeric (iyear r),
       targtype1_txt = targtype1_txt r,
       nkill = fillna 0 (to_numeric (nkill r)),
       nwound = fillna 0 (to_numeric (nwound r)) \<rparr>"

text \<open>Line 31: \<^verbatim>\<open>df.dropna(subset=['iyear', 'targtype1_txt'])\<close>.\<close>

fun dropna :: "coerced_row list \<Rightarrow> clean_row list" where
  "dropna [] = []"
| "dropna (r # rs) =
     (case (iyear r, targtype1_txt r) of
        (Some y, Some t) \<Rightarrow>
          \<lparr> iyear = y, targtype1_txt = t, nkill = nkill r, nwound = nwound r \<rparr> # dropna rs
      | _ \<Rightarrow> dropna rs)"

text \<open>Line 32: \<^verbatim>\<open>df[df['iyear'] > 1900]\<close>.\<close>

definition after_1900 :: "clean_row list \<Rightarrow> clean_row list" where
  "after_1900 rs = filter (\<lambda>r. iyear r > 1900) rs"

text \<open>The maximum and the minimum of a column; of an empty one they are NaN.\<close>

fun series_max :: "rat list \<Rightarrow> rat option" where
  "series_max [] = None"
| "series_max (x # xs) = Some (fold max xs x)"

fun series_min :: "rat list \<Rightarrow> rat option" where
  "series_min [] = None"
| "series_min (x # xs) = Some (fold min xs x)"

text \<open>
  Line 37. A comparison with NaN is false, so an empty frame takes the branch of the
  constant 10, as a frame whose largest total is not positive does.
\<close>

definition circle_size_of :: "rat option \<Rightarrow> rat \<Rightarrow> rat" where
  "circle_size_of max_casualties tc =
     (case max_casualties of
        Some m \<Rightarrow> if m > 0 then 8 + tc / m * 22 else 10
      | None \<Rightarrow> 10)"

text \<open>Lines 35 to 37, on counts that are floats.\<close>

definition add_casualties :: "clean_row list \<Rightarrow> prepared_row list" where
  "add_casualties rs =
     (let max_casualties = series_max (map (\<lambda>r. nkill r + nwound r) rs)
      in map (\<lambda>r. \<lparr> iyear = iyear r, targtype1_txt = targtype1_txt r,
                     nkill = nkill r, nwound = nwound r,
                     total_casualties = nkill r + nwound r,
                     circle_size = circle_size_of max_casualties (nkill r + nwound r) \<rparr>) rs)"

text \<open>The frame that lines 28 to 37 leave, before the sampling.\<close>

definition retained :: "raw_row list \<Rightarrow> prepared_row list" where
  "retained rs = add_casualties (after_1900 (dropna (map coerce_row rs)))"

text \<open>
  Line 42: \<^verbatim>\<open>df.sample(sample_limit, random_state=42)\<close>. The positions that pandas'
  generator draws from a frame of \<open>len\<close> rows are the parameter \<open>draw len n\<close>; the rows come
  in the order drawn. \<open>valid_draw\<close> is what sampling without replacement promises of them:
  as many positions as asked for, no position twice, every position inside the frame (so
  that every read of \<open>df_sample\<close> is inside the frame).
\<close>

definition df_sample :: "(nat \<Rightarrow> nat \<Rightarrow> nat list) \<Rightarrow> nat \<Rightarrow> 'a list \<Rightarrow> 'a list" where
  "df_sample draw n rs = map (\<lambda>i. rs ! i) (draw (length rs) n)"

definition valid_draw :: "nat \<Rightarrow> nat \<Rightarrow> nat list \<Rightarrow> bool" where
  "valid_draw len n idxs \<longleftrightarrow> length idxs = n \<and> distinct idxs \<and> list_all (\<lambda>i. i < len) idxs"

text \<open>Python's \<^verbatim>\<open>int\<close> of a number: towards zero.\<close>

definition py_int :: "rat \<Rightarrow> int" where
  "py_int q = (if q \<ge> 0 then \<lfloor>q\<rfloor> else \<lceil>q\<rceil>)"

text \<open>
  Line 45 (and line 127): \<^verbatim>\<open>int(df['iyear'].min()), int(df['iyear'].max())\<close>. On a frame
  without rows both are NaN and \<^verbatim>\<open>int\<close> raises.
\<close>

definition year_range :: "rat list \<Rightarrow> error + int \<times> int" where
  "year_range years =
     (case (series_min years, series_max years) of
        (Some lo, Some hi) \<Rightarrow> Inr (py_int lo, py_int hi)
      | _ \<Rightarrow> Inl CannotConvertNaN)"

text \<open>
  The function, on the frame that \<^verbatim>\<open>pd.read_csv\<close> returned. \<open>sample_limit\<close> is a number of
  rows. The three \<^verbatim>\<open>print\<close> lines at the end write to the terminal only, but the second of
  them converts the smallest and the largest year and so raises on a frame without rows.
\<close>

definition load_and_prepare_data ::
  "(nat \<Rightarrow> nat \<Rightarrow> nat list) \<Rightarrow> nat \<Rightarrow> raw_row dataframe \<Rightarrow> error + prepared_row list" where
  "load_and_prepare_data draw sample_limit df =
     (case missing_column (columns df) required_cols of
        Some col \<Rightarrow> Inl (RequiredColumnNotFound col)
      | None \<Rightarrow>
          (let d = retained (rows df);
               d' = (if length d > sample_limit then df_sample draw sample_limit d else d)
           in case year_range (map iyear d') of
                Inl e \<Rightarrow> Inl e
              | Inr _ \<Rightarrow> Inr d'))"

section \<open>Count columns of integers and of booleans\<close>

text \<open>
  A column of a frame has one type. \<^verbatim>\<open>pd.read_csv\<close> makes a column of 64-bit integers of
  a column that holds integers only, and a column of booleans of one that holds
  \<^verbatim>\<open>True\<close> and \<^verbatim>\<open>False\<close> only; every other column holds floats or objects, and its
  fields are the cells above. So far the two count columns were of that last kind. Here a
  field of a count column is an integer of an integer column, a boolean of a boolean
  column, or a cell; the year is read by its value, as before. A column of booleans with
  missing fields is a column of objects: \<^verbatim>\<open>pd.to_numeric\<close> reads a boolean that it finds
  there as 1 or 0, so such a field is the cell \<open>Number 1\<close> or \<open>Number 0\<close>.
\<close>

datatype tcell = IntCell "64 word" | BoolCell bool | Cell cell

text \<open>
  A count after lines 28 and 29, with the type of its column. \<open>num_val\<close> is the number that
  it stands for: a boolean counts as 1 or 0.
\<close>

datatype num = Int64 "64 word" | Boolean bool | Float64 rat

fun num_val :: "num \<Rightarrow> rat" where
  "num_val (Int64 w) = of_int (sint w)"
| "num_val (Boolean b) = of_bool b"
| "num_val (Float64 q) = q"

fun is_boolean :: "num \<Rightarrow> bool" where
  "is_boolean (Boolean b) = True"
| "is_boolean (Int64 w) = False"
| "is_boolean (Float64 q) = False"

text \<open>
  \<^verbatim>\<open>pd.to_numeric(..., errors='coerce')\<close> leaves a column of integers or of booleans as it
  is, and \<^verbatim>\<open>fillna(0)\<close> finds nothing to fill in it.
\<close>

fun to_numeric_typed :: "tcell \<Rightarrow> num option" where
  "to_numeric_typed (IntCell w) = Some (Int64 w)"
| "to_numeric_typed (BoolCell b) = Some (Boolean b)"
| "to_numeric_typed (Cell c) = map_option Float64 (to_numeric c)"

fun fillna_typed :: "rat \<Rightarrow> num option \<Rightarrow> num" where
  "fillna_typed d None = Float64 d"
| "fillna_typed d (Some v) = v"

text \<open>
  The sum of line 35, by the types of the two columns: two integers are added in 64 bits
  and wrap around, two booleans give their disjunction, a boolean counts as 1 or 0 beside
  an integer, and a float makes the sum a float.
\<close>

fun num_add :: "num \<Rightarrow> num \<Rightarrow> num" where
  "num_add (Int64 a) (Int64 b) = Int64 (a + b)"
| "num_add (Int64 a) (Boolean b) = Int64 (a + of_bool b)"
| "num_add (Boolean a) (Int64 b) = Int64 (of_bool a + b)"
| "num_add (Boolean a) (Boolean b) = Boolean (a \<or> b)"
| "num_add (Float64 a) y = Float64 (a + num_val y)"
| "num_add x (Float64 b) = Float64 (num_val x + b)"

type_synonym typed_raw_row = "(cell, string option, tcell) incident"
type_synonym typed_coerced_row = "(rat option, string option, num) incident"
type_synonym typed_clean_row = "(rat, string, num) incident"
type_synonym typed_prepared_row = "(rat, string, num) casualty"

text \<open>Lines 28 to 32 on such rows.\<close>

definition coerce_row_typed :: "typed_raw_row \<Rightarrow> typed_coerced_row" where
  "coerce_row_typed r =
     \<lparr> iyear = to_numeric (iyear r),
       targtype1_txt = targtype1_txt r,
       nkill = fillna_typed 0 (to_numeric_typed (nkill r)),
       nwound = fillna_typed 0 (to_numeric_typed (nwound r)) \<rparr>"

fun dropna_typed :: "typed_coerced_row list \<Rightarrow> typed_clean_row list" where
  "dropna_typed [] = []"
| "dropna_typed (r # rs) =
     (case (iyear r, targtype1_txt r) of
        (Some y, Some t) \<Rightarrow>
          \<lparr> iyear = y, targtype1_txt = t, nkill = nkill r, nwound = nwound r \<rparr> #
          dropna_typed rs
      | _ \<Rightarrow> dropna_typed rs)"

definition after_1900_typed :: "typed_clean_row list \<Rightarrow> typed_clean_row list" where
  "after_1900_typed rs = filter (\<lambda>r. iyear r > 1900) rs"

definition cleaned_typed :: "typed_raw_row list \<Rightarrow> typed_clean_row list" where
  "cleaned_typed rs = after_1900_typed (dropna_typed (map coerce_row_typed rs))"

text \<open>Line 36: the largest total, with its type; NaN of a column without rows.\<close>

fun series_max_typed :: "num list \<Rightarrow> num option" where
  "series_max_typed [] = None"
| "series_max_typed (x # xs) =
     Some (fold (\<lambda>y m. if num_val m < num_val y then y else m) xs x)"

text \<open>
  Lines 35 to 37. The quotient of line 37 is a float, but pandas refuses to divide a
  column of booleans by a boolean: with two boolean count columns of which one holds a
  \<^verbatim>\<open>True\<close> in a row that is kept, the line raises. The constant 10 of the other branch is
  an integer.
\<close>

definition with_circle_size ::
  "(num \<Rightarrow> num) \<Rightarrow> typed_clean_row list \<Rightarrow> typed_prepared_row list" where
  "with_circle_size size_of rs =
     map (\<lambda>r. \<lparr> iyear = iyear r, targtype1_txt = targtype1_txt r,
                  nkill = nkill r, nwound = nwound r,
                  total_casualties = num_add (nkill r) (nwound r),
                  circle_size = size_of (num_add (nkill r) (nwound r)) \<rparr>) rs"

definition add_casualties_typed :: "typed_clean_row list \<Rightarrow> error + typed_prepared_row list" where
  "add_casualties_typed rs =
     (let totals = map (\<lambda>r. num_add (nkill r) (nwound r)) rs;
          max_casualties = series_max_typed totals
      in case max_casualties of
           Some m \<Rightarrow>
             if num_val m > 0
             then (if list_all is_boolean totals then Inl NotImplementedError
                   else Inr (with_circle_size
                               (\<lambda>tc. Float64 (8 + num_val tc / num_val m * 22)) rs))
             else Inr (with_circle_size (\<lambda>tc. Int64 10) rs)
         | None \<Rightarrow> Inr (with_circle_size (\<lambda>tc. Int64 10) rs))"

definition retained_typed :: "typed_raw_row list \<Rightarrow> error + typed_prepared_row list" where
  "retained_typed rs = add_casualties_typed (cleaned_typed rs)"

text \<open>The function on a frame with such count columns.\<close>

definition load_and_prepare_data_typed ::
  "(nat \<Rightarrow> nat \<Rightarrow> nat list) \<Rightarrow> nat \<Rightarrow> typed_raw_row dataframe \<Rightarrow>
   error + typed_prepared_row list" where
  "load_and_prepare_data_typed draw sample_limit df =
     (case missing_column (columns df) required_cols of
        Some col \<Rightarrow> Inl (RequiredColumnNotFound col)
      | None \<Rightarrow>
          (case retained_typed (rows df) of
             Inl e \<Rightarrow> Inl e
           | Inr d \<Rightarrow>
               (let d' = (if length d > sample_limit then df_sample draw sample_limit d else d)
                in case year_range (map iyear d') of
                     Inl e \<Rightarrow> Inl e
                   | Inr _ \<Rightarrow> Inr d')))"

text \<open>
  A frame of cells as a frame of this kind, and the numbers of a row that is returned: the
  two count columns of \<open>load_and_prepare_data\<close> above are columns of floats or objects.
\<close>

definition cell_row :: "raw_row \<Rightarrow> typed_raw_row" where
  "cell_row r =
     \<lparr> iyear = iyear r, targtype1_txt = targtype1_txt r,
       nkill = Cell (nkill r), nwound = Cell (nwound r) \<rparr>"

definition row_values :: "typed_prepared_row \<Rightarrow> prepared_row" where
  "row_values r =
     \<lparr> iyear = iyear r, targtype1_txt = targtype1_txt r,
       nkill = num_val (nkill r), nwound = num_val (nwound r),
       total_casualties = num_val (total_casualties r),
       circle_size = num_val (circle_size r) \<rparr>"

section \<open>\<^verbatim>\<open>create_color_mapping\<close>\<close>

text \<open>\<^verbatim>\<open>Series.unique()\<close>: the distinct values, each at its first place.\<close>

fun unique :: "'a list \<Rightarrow> 'a list" where
  "unique [] = []"
| "unique (x # xs) = x # unique (filter (\<lambda>y. y \<noteq> x) xs)"

text \<open>
  The two palettes are tuples of the plotting library (of 20 and of 256 colours); they are
  parameters here. \<open>turbo_colors\<close> is the list comprehension of line 62, which reads the
  palette at \<open>i * step\<close>; \<open>None\<close> would be Python's IndexError, on a palette too short.
\<close>

record palettes =
  Category20_20 :: "string list"
  Turbo256 :: "string list"

fun turbo_colors :: "string list \<Rightarrow> nat \<Rightarrow> nat list \<Rightarrow> string list option" where
  "turbo_colors turbo step [] = Some []"
| "turbo_colors turbo step (i # is) =
     (if i * step < length turbo
      then map_option ((#) (turbo ! (i * step))) (turbo_colors turbo step is)
      else None)"

definition create_color_mapping ::
  "palettes \<Rightarrow> ('y, string, 'n, 'z) casualty_scheme list \<Rightarrow> error + (string \<times> string) list \<times> string list" where
  "create_color_mapping pal df =
     (let unique_targets = sort (unique (map targtype1_txt df));
          n_targets = length unique_targets
      in if n_targets \<le> 20
         then Inr (zip unique_targets (take n_targets (Category20_20 pal)), unique_targets)
         else (let step = length (Turbo256 pal) div n_targets
               in case turbo_colors (Turbo256 pal) step [0..<n_targets] of
                    None \<Rightarrow> Inl IndexError
                  | Some colors \<Rightarrow> Inr (zip unique_targets colors, unique_targets)))"

section \<open>The page: \<^verbatim>\<open>create_visualization\<close> and its callback\<close>

text \<open>
  Values in the browser. Reading an array past its end gives \<^verbatim>\<open>undefined\<close>, which is
  \<open>None\<close> in a cell. A number computed there may be NaN or infinite.
\<close>

datatype jsnum = NaN | Infinity | NegInfinity | Finite rat

definition js_get :: "'a list \<Rightarrow> nat \<Rightarrow> 'a option" where
  "js_get xs i = (if i < length xs then Some (xs ! i) else None)"

fun to_number :: "rat option \<Rightarrow> jsnum" where
  "to_number None = NaN"
| "to_number (Some q) = Finite q"

fun js_add :: "jsnum \<Rightarrow> jsnum \<Rightarrow> jsnum" where
  "js_add NaN b = NaN"
| "js_add a NaN = NaN"
| "js_add (Finite a) (Finite b) = Finite (a + b)"
| "js_add Infinity NegInfinity = NaN"
| "js_add NegInfinity Infinity = NaN"
| "js_add Infinity b = Infinity"
| "js_add a Infinity = Infinity"
| "js_add NegInfinity b = NegInfinity"
| "js_add a NegInfinity = NegInfinity"

fun js_min2 :: "jsnum \<Rightarrow> jsnum \<Rightarrow> jsnum" where
  "js_min2 NaN b = NaN"
| "js_min2 a NaN = NaN"
| "js_min2 NegInfinity b = NegInfinity"
| "js_min2 a NegInfinity = NegInfinity"
| "js_min2 Infinity b = b"
| "js_min2 a Infinity = a"
| "js_min2 (Finite a) (Finite b) = Finite (min a b)"

fun js_max2 :: "jsnum \<Rightarrow> jsnum \<Rightarrow> jsnum" where
  "js_max2 NaN b = NaN"
| "js_max2 a NaN = NaN"
| "js_max2 Infinity b = Infinity"
| "js_max2 a Infinity = Infinity"
| "js_max2 NegInfinity b = b"
| "js_max2 a NegInfinity = a"
| "js_max2 (Finite a) (Finite b) = Finite (max a b)"

text \<open>\<^verbatim>\<open>Math.min(...xs)\<close> and \<^verbatim>\<open>Math.max(...xs)\<close>.\<close>

definition Math_min :: "rat option list \<Rightarrow> jsnum" where
  "Math_min xs = fold (\<lambda>x acc. js_min2 acc (to_number x)) xs Infinity"

definition Math_max :: "rat option list \<Rightarrow> jsnum" where
  "Math_max xs = fold (\<lambda>x acc. js_max2 acc (to_number x)) xs NegInfinity"

text \<open>\<^verbatim>\<open>year >= start\<close> and \<^verbatim>\<open>year <= end\<close>: false on \<^verbatim>\<open>undefined\<close>.\<close>

fun js_ge :: "rat option \<Rightarrow> rat \<Rightarrow> bool" where
  "js_ge None b = False"
| "js_ge (Some a) b = (a \<ge> b)"

fun js_le :: "rat option \<Rightarrow> rat \<Rightarrow> bool" where
  "js_le None b = False"
| "js_le (Some a) b = (a \<le> b)"

text \<open>
  A row of the frame that is drawn, \<open>original_data\<close> (\<^verbatim>\<open>original_df.to_dict('list')\<close>: one
  list per column) and the data of the source in the browser. A colour is \<open>None\<close> where
  \<^verbatim>\<open>Series.map\<close> found no entry of the dict.
\<close>

type_synonym drawn_row = "(rat, string, rat, string option) point"
type_synonym dict_list = "(rat list, string list, rat list, string option list) point"
type_synonym source_data =
  "(rat option list, string option list, rat option list, string option option list) point"

definition to_dict_list :: "drawn_row list \<Rightarrow> dict_list" where
  "to_dict_list df =
     \<lparr> iyear = map iyear df, targtype1_txt = map targtype1_txt df,
       nkill = map nkill df, nwound = map nwound df,
       total_casualties = map total_casualties df, circle_size = map circle_size df,
       color = map color df \<rparr>"

text \<open>\<^verbatim>\<open>ColumnDataSource(df)\<close>, and so the data that a frame is in the browser.\<close>

definition column_data :: "drawn_row list \<Rightarrow> source_data" where
  "column_data df =
     \<lparr> iyear = map (Some \<circ> iyear) df, targtype1_txt = map (Some \<circ> targtype1_txt) df,
       nkill = map (Some \<circ> nkill) df, nwound = map (Some \<circ> nwound) df,
       total_casualties = map (Some \<circ> total_casualties) df,
       circle_size = map (Some \<circ> circle_size) df,
       color = map (Some \<circ> color) df \<rparr>"

datatype title = AllYears | Years rat rat

text \<open>The numbers that the text of \<^verbatim>\<open>stats_div\<close> shows.\<close>

record stats =
  showing :: nat
  years :: "rat \<times> rat"
  total_killed :: jsnum
  total_wounded :: jsnum

record range1d =
  range_start :: jsnum
  range_end :: jsnum

record page =
  source :: source_data
  original_data :: dict_list
  slider_start :: rat
  slider_end :: rat
  slider_value :: "rat \<times> rat"
  checkbox_labels :: "string list"
  checkbox_active :: "nat list"
  plot_title :: title
  stats_div :: stats
  x_range :: range1d
  y_range :: range1d
  legend_field :: string
  change_emitted :: nat

text \<open>
  The loop of the callback (lines 167 to 181), from index \<open>i\<close> on, with the arrays of
  \<open>new_data\<close> and the two running totals as they stand.
\<close>

function filter_loop ::
  "dict_list \<Rightarrow> rat \<Rightarrow> rat \<Rightarrow> string option list \<Rightarrow> nat \<Rightarrow>
   source_data \<times> jsnum \<times> jsnum \<Rightarrow> source_data \<times> jsnum \<times> jsnum" where
  "filter_loop orig start end' selected i (new_data, killed, wounded) =
     (if i < length (iyear orig) then
        (let year = js_get (iyear orig) i;
             targ = js_get (targtype1_txt orig) i
         in if js_ge year start \<and> js_le year end' \<and> targ \<in> set selected
            then filter_loop orig start end' selected (Suc i)
                   (new_data
                      \<lparr> iyear := iyear new_data @ [year],
                        targtype1_txt := targtype1_txt new_data @ [targ],
                        nkill := nkill new_data @ [js_get (nkill orig) i],
                        nwound := nwound new_data @ [js_get (nwound orig) i],
                        total_casualties :=
                          total_casualties new_data @ [js_get (total_casualties orig) i],
                        circle_size := circle_size new_data @ [js_get (circle_size orig) i],
                        color := color new_data @ [js_get (color orig) i] \<rparr>,
                    js_add killed (to_number (js_get (nkill orig) i)),
                    js_add wounded (to_number (js_get (nwound orig) i)))
            else filter_loop orig start end' selected (Suc i) (new_data, killed, wounded))
      else (new_data, killed, wounded))"
  by pat_completeness auto
termination
  by (relation "measure (\<lambda>(orig, start, end', selected, i, acc). length (iyear orig) - i)") auto

text \<open>Line 160: \<^verbatim>\<open>checkbox.active.map(i => checkbox.labels[i])\<close>.\<close>

definition selected_labels :: "page \<Rightarrow> string option list" where
  "selected_labels pg = map (js_get (checkbox_labels pg)) (checkbox_active pg)"

definition empty_data :: source_data where
  "empty_data =
     \<lparr> iyear = [], targtype1_txt = [], nkill = [], nwound = [],
       total_casualties = [], circle_size = [], color = [] \<rparr>"

text \<open>
  The callback (lines 158 to 207), on the state of the page. The text of \<^verbatim>\<open>stats_div\<close> is
  modelled by the numbers that it prints.
\<close>

definition callback :: "page \<Rightarrow> page" where
  "callback pg =
     (let orig = original_data pg;
          (start, end') = slider_value pg;
          selected = selected_labels pg;
          (new_data, killed, wounded) =
            filter_loop orig start end' selected 0 (empty_data, Finite 0, Finite 0);
          pg1 = pg \<lparr> source := new_data \<rparr>;
          count = length (iyear new_data);
          pg2 = pg1 \<lparr> plot_title := Years start end' \<rparr>;
          pg3 = pg2 \<lparr> stats_div := \<lparr> showing = count, years = (start, end'),
                                     total_killed = killed, total_wounded = wounded \<rparr> \<rparr>;
          x_vals = nkill new_data;
          y_vals = nwound new_data;
          pg4 = (if length x_vals > 0
                 then pg3 \<lparr> x_range := \<lparr> range_start = js_add (Math_min x_vals) (Finite (- 1)),
                                           range_end = js_add (Math_max x_vals) (Finite 1) \<rparr>,
                             y_range := \<lparr> range_start = js_add (Math_min y_vals) (Finite (- 1)),
                                           range_end = js_add (Math_max y_vals) (Finite 1) \<rparr> \<rparr>
                 else pg3)
      in pg4 \<lparr> change_emitted := Suc (change_emitted pg4) \<rparr>)"

text \<open>The two events that run it: the slider is moved, a box is ticked or cleared.\<close>

definition on_slider_change :: "rat \<times> rat \<Rightarrow> page \<Rightarrow> page" where
  "on_slider_change v pg = callback (pg \<lparr> slider_value := v \<rparr>)"

definition on_checkbox_change :: "nat list \<Rightarrow> page \<Rightarrow> page" where
  "on_checkbox_change active pg = callback (pg \<lparr> checkbox_active := active \<rparr>)"

text \<open>Line 72: the colour of each row, looked up in the dict.\<close>

definition add_color :: "(string \<times> string) list \<Rightarrow> prepared_row list \<Rightarrow> drawn_row list" where
  "add_color color_map df =
     map (\<lambda>r. \<lparr> iyear = iyear r, targtype1_txt = targtype1_txt r,
                  nkill = nkill r, nwound = nwound r,
                  total_casualties = total_casualties r, circle_size = circle_size r,
                  color = map_of color_map (targtype1_txt r) \<rparr>) df"

text \<open>
  \<^verbatim>\<open>create_visualization\<close>, up to the page that it writes. The ranges of a new figure are
  not computed yet. The keys of the dict are distinct, so the first entry of a key in the
  zipped list is its only one.
\<close>

definition create_visualization :: "palettes \<Rightarrow> prepared_row list \<Rightarrow> error + page" where
  "create_visualization pal df0 =
     (case create_color_mapping pal df0 of
        Inl e \<Rightarrow> Inl e
      | Inr (color_map, unique_targets) \<Rightarrow>
          (let df = add_color color_map df0
           in case year_range (map iyear df) of
                Inl e \<Rightarrow> Inl e
              | Inr (year_min, year_max) \<Rightarrow>
                  Inr \<lparr> source = column_data df,
                        original_data = to_dict_list df,
                        slider_start = of_int year_min,
                        slider_end = of_int year_max,
                        slider_value = (of_int year_min, of_int year_max),
                        checkbox_labels = unique_targets,
                        checkbox_active = [0..<length unique_targets],
                        plot_title = AllYears,
                        stats_div = \<lparr> showing = length df,
                                      years = (of_int year_min, of_int year_max),
                                      total_killed = Finite (sum_list (map nkill df)),
                                      total_wounded = Finite (sum_list (map nwound df)) \<rparr>,
                        x_range = \<lparr> range_start = NaN, range_end = NaN \<rparr>,
                        y_range = \<lparr> range_start = NaN, range_end = NaN \<rparr>,
                        legend_field = ''targtype1_txt'',
                        change_emitted = 0 \<rparr>))"

text \<open>
  The legend of the glyph (line 95) is bound to the column of the source that
  \<open>legend_field\<close> names. The library groups that column in the browser and shows one label
  for each of its distinct values, at the place of the first. Of the seven columns only
  \<open>targtype1_txt\<close> holds labels; the legend of another field is not modelled.
\<close>

definition legend_labels :: "page \<Rightarrow> string option list option" where
  "legend_labels pg =
     (if legend_field pg = ''targtype1_txt'' then Some (unique (targtype1_txt (source pg)))
      else None)"

section \<open>\<^verbatim>\<open>attack_types_plot.py\<close>\<close>

text \<open>
  Lines 8 to 12, on rows of a year and an attack type: the number of rows of every pair, 0
  for a pair without rows. The script checks nothing; \<^verbatim>\<open>groupby\<close> raises on a column
  that the frame has not, and leaves out the rows that lack a key. The order of the table's
  rows and columns is not modelled.
\<close>

record pivot =
  pivot_index :: "cell set"
  pivot_columns :: "string set"
  pivot_size :: "cell \<Rightarrow> string \<Rightarrow> nat"

fun has_keys :: "cell \<times> string option \<Rightarrow> bool" where
  "has_keys (Missing, a) = False"
| "has_keys (y, None) = False"
| "has_keys (y, Some a) = True"

definition attack_pivot :: "(cell \<times> string option) dataframe \<Rightarrow> error + pivot" where
  "attack_pivot df =
     (case missing_column (columns df) [''iyear'', ''attacktype1_txt''] of
        Some col \<Rightarrow> Inl (KeyError col)
      | None \<Rightarrow>
          (let groups = filter has_keys (rows df)
           in Inr \<lparr> pivot_index = set (map fst groups),
                     pivot_columns = set (List.map_filter snd groups),
                     pivot_size = (\<lambda>y a. length (filter (\<lambda>g. g = (y, Some a)) groups)) \<rparr>))"

section \<open>Sample data\<close>

text \<open>
  A small frame with the four required columns: a text in a wound count, a year before
  1901, a year that is a text, an empty kill count, an empty target type and a negative kill
  count.
\<close>

definition example_rows :: "raw_row list" where
  "example_rows =
     [\<lparr> iyear = Number 2000, targtype1_txt = Some ''Military'', nkill = Number 3, nwound = Text ''many'' \<rparr>,
      \<lparr> iyear = Number 1890, targtype1_txt = Some ''Police'', nkill = Number 1, nwound = Number 1 \<rparr>,
      \<lparr> iyear = Text ''unknown'', targtype1_txt = Some ''Police'', nkill = Number 1, nwound = Number 1 \<rparr>,
      \<lparr> iyear = Number 2005, targtype1_txt = Some ''Police'', nkill = Missing, nwound = Number 7 \<rparr>,
      \<lparr> iyear = Number 2010, targtype1_txt = None, nkill = Number 1, nwound = Number 1 \<rparr>,
      \<lparr> iyear = Number 2011, targtype1_txt = Some ''Business'', nkill = Number (- 5), nwound = Number 1 \<rparr>]"

definition example_frame :: "raw_row dataframe" where
  "example_frame = \<lparr> columns = required_cols, rows = example_rows \<rparr>"

text \<open>The frame that \<open>load_and_prepare_data\<close> makes of it, when nothing is sampled.\<close>

definition example_prepared :: "prepared_row list" where
  "example_prepared =
     [\<lparr> iyear = 2000, targtype1_txt = ''Military'', nkill = 3, nwound = 0,
        total_casualties = 3, circle_size = 122 / 7 \<rparr>,
      \<lparr> iyear = 2005, targtype1_txt = ''Police'', nkill = 0, nwound = 7,
        total_casualties = 7, circle_size = 30 \<rparr>,
      \<lparr> iyear = 2011, targtype1_txt = ''Business'', nkill = - 5, nwound = 1,
        total_casualties = - 4, circle_size = - (32 / 7) \<rparr>]"

text \<open>A draw: the last \<open>n\<close> positions, the last one first.\<close>

definition example_draw :: "nat \<Rightarrow> nat \<Rightarrow> nat list" where
  "example_draw len n = rev [len - n..<len]"

text \<open>The first colours of the two palettes stand for the palettes.\<close>

definition example_palettes :: palettes where
  "example_palettes =
     \<lparr> Category20_20 = [''#1f77b4'', ''#aec7e8'', ''#ff7f0e''],
       Turbo256 = [''#30123b''] \<rparr>"

definition example_points :: "drawn_row list" where
  "example_points =
     [\<lparr> iyear = 2000, targtype1_txt = ''Military'', nkill = 3, nwound = 0,
        total_casualties = 3, circle_size = 122 / 7, color = Some ''#aec7e8'' \<rparr>,
      \<lparr> iyear = 2005, targtype1_txt = ''Police'', nkill = 0, nwound = 7,
        total_casualties = 7, circle_size = 30, color = Some ''#ff7f0e'' \<rparr>,
      \<lparr> iyear = 2011, targtype1_txt = ''Business'', nkill = - 5, nwound = 1,
        total_casualties = - 4, circle_size = - (32 / 7), color = Some ''#1f77b4'' \<rparr>]"

text \<open>The page of these points, after the slider was moved to 2001 - 2011.\<close>

definition example_page :: page where
  "example_page =
     \<lparr> source = column_data example_points,
       original_data = to_dict_list example_points,
       slider_start = 2000, slider_end = 2011, slider_value = (2001, 2011),
       checkbox_labels = [''Business'', ''Military'', ''Police''],
       checkbox_active = [0, 1, 2],
       plot_title = AllYears,
       stats_div = \<lparr> showing = 3, years = (2000, 2011),
                     total_killed = Finite (- 2), total_wounded = Finite 8 \<rparr>,
       x_range = \<lparr> range_start = Finite (- 6), range_end = Finite 4 \<rparr>,
       y_range = \<lparr> range_start = Finite (- 1), range_end = Finite 8 \<rparr>,
       legend_field = ''targtype1_txt'',
       change_emitted = 0 \<rparr>"


definition example_bool_rows :: "typed_raw_row list" where
  "example_bool_rows =
     [\<lparr> iyear = Number 2000, targtype1_txt = Some ''Military'',
        nkill = BoolCell True, nwound = Cell (Number 2) \<rparr>,
      \<lparr> iyear = Number 2005, targtype1_txt = Some ''Police'',
        nkill = BoolCell False, nwound = Cell (Text ''many'') \<rparr>]"

definition example_two_bool_rows :: "typed_raw_row list" where
  "example_two_bool_rows =
     [\<lparr> iyear = Number 2000, targtype1_txt = Some ''Military'',
        nkill = BoolCell True, nwound = BoolCell False \<rparr>,
      \<lparr> iyear = Number 2005, targtype1_txt = Some ''Police'',
        nkill = BoolCell False, nwound = BoolCell False \<rparr>]"

section \<open>Facts about the loader\<close>

lemma missing_column_None: "missing_column cols req = None \<longleftrightarrow> set req \<subseteq> set cols"
  by (induction req) auto

lemma missing_column_Some:
  "missing_column cols req = Some c \<Longrightarrow> c \<in> set req \<and> c \<notin> set cols"
  by (induction req) (auto split: if_splits)

lemma year_range_Nil: "year_range [] = Inl CannotConvertNaN"
  by (simp add: year_range_def)

lemma year_range_Cons: "year_range (y # ys) = Inr (py_int (fold min ys y), py_int (fold max ys y))"
  by (simp add: year_range_def)

lemma load_present:
  assumes "set required_cols \<subseteq> set (columns df)"
  shows "load_and_prepare_data draw n df =
           (let d = retained (rows df);
                d' = (if length d > n then df_sample draw n d else d)
            in if d' = [] then Inl CannotConvertNaN else Inr d')"
proof -
  have m: "missing_column (columns df) required_cols = None"
    using assms by (simp add: missing_column_None)
  show ?thesis
    unfolding load_and_prepare_data_def m Let_def
    by (cases "(if length (retained (rows df)) > n then df_sample draw n (retained (rows df)) else retained (rows df))")
       (simp_all add: year_range_Nil year_range_Cons)
qed

lemma load_absent:
  assumes "\<not> set required_cols \<subseteq> set (columns df)"
  shows "\<exists>col. load_and_prepare_data draw n df = Inl (RequiredColumnNotFound col)
           \<and> col \<in> set required_cols \<and> col \<notin> set (columns df)"
proof -
  from assms obtain col where c: "missing_column (columns df) required_cols = Some col"
    by (cases "missing_column (columns df) required_cols") (auto simp: missing_column_None)
  then show ?thesis
    using missing_column_Some [OF c] by (auto simp: load_and_prepare_data_def)
qed

lemma load_Inr:
  assumes "load_and_prepare_data draw n df = Inr out"
  shows "set required_cols \<subseteq> set (columns df)"
    and "out \<noteq> []"
    and "out = (if length (retained (rows df)) > n
                then df_sample draw n (retained (rows df)) else retained (rows df))"
proof -
  show s: "set required_cols \<subseteq> set (columns df)"
    using assms load_absent [of df draw n] by auto
  show "out \<noteq> []" 
    using assms load_present [OF s, of draw n] by (auto simp: Let_def split: if_splits)
  show "out = (if length (retained (rows df)) > n
                then df_sample draw n (retained (rows df)) else retained (rows df))"
    using assms load_present [OF s, of draw n] by (auto simp: Let_def split: if_splits)
qed

lemma df_sample_subset:
  assumes "valid_draw (length d) n (draw (length d) n)"
  shows "set (df_sample draw n d) \<subseteq> set d" and "length (df_sample draw n d) = n"
  using assms by (auto simp: df_sample_def valid_draw_def list_all_iff)

lemma load_subset:
  assumes "load_and_prepare_data draw n df = Inr out"
    and "\<And>len k. k \<le> len \<Longrightarrow> valid_draw len k (draw len k)"
  shows "set out \<subseteq> set (retained (rows df))"
proof (cases "length (retained (rows df)) > n")
  case True
  then have "valid_draw (length (retained (rows df))) n (draw (length (retained (rows df))) n)"
    using assms(2) by simp
  then show ?thesis using load_Inr(3) [OF assms(1)] True df_sample_subset(1) by metis
next
  case False
  then show ?thesis using load_Inr(3) [OF assms(1)] by simp
qed

lemma add_casualties_core:
  "map (\<lambda>r. (iyear r, targtype1_txt r, nkill r, nwound r)) (add_casualties rs) =
   map (\<lambda>r. (iyear r, targtype1_txt r, nkill r, nwound r)) rs"
  by (simp add: add_casualties_def Let_def comp_def)

lemma clean_core:
  "map (\<lambda>r. (Number (iyear r), Some (targtype1_txt r), nkill r, nwound r))
       (after_1900 (dropna (map coerce_row rs))) =
   map (\<lambda>r. (iyear r, targtype1_txt r, fillna 0 (to_numeric (nkill r)), fillna 0 (to_numeric (nwound r))))
       (filter (\<lambda>r. case iyear r of Number y \<Rightarrow> 1900 < y \<and> targtype1_txt r \<noteq> None | _ \<Rightarrow> False) rs)"
proof (induction rs)
  case Nil
  show ?case by (simp add: after_1900_def)
next
  case (Cons r rs)
  then show ?case
    by (cases "iyear r"; cases "targtype1_txt r") (auto simp: after_1900_def coerce_row_def)
qed

lemma retained_core:
  "map (\<lambda>r. (Number (iyear r), Some (targtype1_txt r), nkill r, nwound r)) (retained rs) =
   map (\<lambda>r. (iyear r, targtype1_txt r, fillna 0 (to_numeric (nkill r)), fillna 0 (to_numeric (nwound r))))
       (filter (\<lambda>r. case iyear r of Number y \<Rightarrow> 1900 < y \<and> targtype1_txt r \<noteq> None | _ \<Rightarrow> False) rs)"
proof -
  have "map (\<lambda>r. (Number (iyear r), Some (targtype1_txt r), nkill r, nwound r)) (retained rs)
      = map (\<lambda>r. (Number (iyear r), Some (targtype1_txt r), nkill r, nwound r))
          (after_1900 (dropna (map coerce_row rs)))"
    by (simp add: retained_def add_casualties_def Let_def comp_def)
  then show ?thesis by (simp only: clean_core)
qed

lemma retained_total:
  "r \<in> set (retained rs) \<Longrightarrow> total_casualties r = nkill r + nwound r"
  by (auto simp: retained_def add_casualties_def Let_def)

lemma retained_after_1900:
  "r \<in> set (retained rs) \<Longrightarrow> iyear r > 1900"
  by (auto simp: retained_def add_casualties_def Let_def after_1900_def)

lemma dropna_append: "dropna (xs @ ys) = dropna xs @ dropna ys"
  by (induction xs) (auto split: option.splits)

lemma dropna_Cons: "dropna (x # ys) = dropna [x] @ dropna ys"
  using dropna_append [of "[x]" ys] by simp

lemma clean_append:
  "after_1900 (dropna (map coerce_row (xs @ ys))) =
   after_1900 (dropna (map coerce_row xs)) @ after_1900 (dropna (map coerce_row ys))"
  by (simp add: dropna_append after_1900_def)

lemma retained_skip:
  assumes "after_1900 (dropna (map coerce_row [r])) = []"
  shows "retained (xs @ r # ys) = retained (xs @ ys)"
proof -
  have "after_1900 (dropna (map coerce_row (xs @ [r] @ ys))) =
        after_1900 (dropna (map coerce_row xs)) @ after_1900 (dropna (map coerce_row [r])) @
        after_1900 (dropna (map coerce_row ys))"
    by (simp only: clean_append)
  also have "\<dots> = after_1900 (dropna (map coerce_row (xs @ ys)))"
    by (simp only: assms clean_append append_Nil)
  finally show ?thesis
    by (simp add: retained_def del: dropna.simps)
qed

lemma excluded_no_year:
  "iyear r = Missing \<or> (\<exists>s. iyear r = Text s) \<or> targtype1_txt r = None \<Longrightarrow>
   after_1900 (dropna (map coerce_row [r])) = []"
  by (auto simp: after_1900_def coerce_row_def split: option.splits)

lemma excluded_old_year:
  "iyear r = Number y \<Longrightarrow> y \<le> 1900 \<Longrightarrow> after_1900 (dropna (map coerce_row [r])) = []"
  by (auto simp: after_1900_def coerce_row_def split: option.splits)

lemma retained_year_target:
  "map (\<lambda>r. (Number (iyear r), Some (targtype1_txt r))) (retained rs) =
   map (\<lambda>r. (iyear r, targtype1_txt r))
     (filter (\<lambda>r. case iyear r of Number y \<Rightarrow> 1900 < y \<and> targtype1_txt r \<noteq> None | _ \<Rightarrow> False) rs)"
proof -
  have "map (\<lambda>p. (fst p, fst (snd p)))
          (map (\<lambda>r. (Number (iyear r), Some (targtype1_txt r), nkill r, nwound r)) (retained rs)) =
        map (\<lambda>p. (fst p, fst (snd p)))
          (map (\<lambda>r. (iyear r, targtype1_txt r, fillna 0 (to_numeric (nkill r)),
                      fillna 0 (to_numeric (nwound r))))
            (filter (\<lambda>r. case iyear r of Number y \<Rightarrow> 1900 < y \<and> targtype1_txt r \<noteq> None | _ \<Rightarrow> False) rs))"
    by (simp only: retained_core)
  then show ?thesis by (simp add: comp_def)
qed

lemma kept_predicate:
  "(case iyear r of Number y \<Rightarrow> 1900 < y \<and> targtype1_txt r \<noteq> None | _ \<Rightarrow> False) \<longleftrightarrow>
   \<not> (iyear r = Missing \<or> (\<exists>s. iyear r = Text s) \<or> targtype1_txt r = None \<or>
      (\<exists>y. iyear r = Number y \<and> y \<le> 1900))"
  by (cases "iyear r") auto

lemma sample_keys:
  assumes eq: "map f d1 = map f d2"
    and v: "valid_draw (length d1) n (draw (length d1) n)"
  shows "map f (df_sample draw n d1) = map f (df_sample draw n d2)"
proof -
  have len: "length d1 = length d2"
    using eq by (rule map_eq_imp_length_eq)
  have "f (d1 ! i) = f (d2 ! i)" if "i < length d1" for i
  proof -
    have "f (d1 ! i) = map f d1 ! i" using that by simp
    also have "\<dots> = map f d2 ! i" by (simp only: eq)
    also have "\<dots> = f (d2 ! i)" using that len by simp
    finally show ?thesis .
  qed
  moreover have "\<forall>i \<in> set (draw (length d1) n). i < length d1"
    using v by (simp add: valid_draw_def list_all_iff)
  ultimately show ?thesis
    by (simp add: df_sample_def len [symmetric])
qed

lemma retained_counts_from_input:
  assumes "r \<in> set (retained rs)"
  obtains r0 where "r0 \<in> set rs" "nkill r = fillna 0 (to_numeric (nkill r0))"
    "nwound r = fillna 0 (to_numeric (nwound r0))"
proof -
  let ?P = "\<lambda>r. case iyear r of Number y \<Rightarrow> 1900 < y \<and> targtype1_txt r \<noteq> None | _ \<Rightarrow> False"
  have "(Number (iyear r), Some (targtype1_txt r), nkill r, nwound r) \<in>
        set (map (\<lambda>r. (Number (iyear r), Some (targtype1_txt r), nkill r, nwound r)) (retained rs))"
    using assms by (simp add: image_iff) blast
  then have "(Number (iyear r), Some (targtype1_txt r), nkill r, nwound r) \<in>
        set (map (\<lambda>r. (iyear r, targtype1_txt r, fillna 0 (to_numeric (nkill r)),
                        fillna 0 (to_numeric (nwound r)))) (filter ?P rs))"
    by (simp only: retained_core)
  then obtain r0 where "r0 \<in> set rs"
    "(Number (iyear r), Some (targtype1_txt r), nkill r, nwound r) =
     (iyear r0, targtype1_txt r0, fillna 0 (to_numeric (nkill r0)), fillna 0 (to_numeric (nwound r0)))"
    by auto
  then show ?thesis using that by simp
qed

lemma fillna_nonneg:
  "(\<forall>q. c = Number q \<longrightarrow> 0 \<le> q) \<Longrightarrow> 0 \<le> fillna 0 (to_numeric c)"
  by (cases c) simp_all

text \<open>
  The sampling, where the function returns: with more rows than a positive limit it returns
  as many rows as the limit, drawn at distinct places of the frame before the sampling; with
  at least one row and no more than the limit it returns that frame.
\<close>

lemma sample_limit_respected:
  assumes "\<And>len k. k \<le> len \<Longrightarrow> valid_draw len k (draw len k)"
    and "set required_cols \<subseteq> set (columns df)"
  shows "0 < sample_limit \<and> sample_limit < length (retained (rows df)) \<longrightarrow>
           (\<exists>out idxs. load_and_prepare_data draw sample_limit df = Inr out \<and>
              length out = sample_limit \<and> distinct idxs \<and>
              (\<forall>i \<in> set idxs. i < length (retained (rows df))) \<and>
              out = map (\<lambda>i. retained (rows df) ! i) idxs)"
    and "0 < length (retained (rows df)) \<and> length (retained (rows df)) \<le> sample_limit \<longrightarrow>
           load_and_prepare_data draw sample_limit df = Inr (retained (rows df))"
proof -
  let ?d = "retained (rows df)"
  show "0 < sample_limit \<and> sample_limit < length ?d \<longrightarrow>
           (\<exists>out idxs. load_and_prepare_data draw sample_limit df = Inr out \<and>
              length out = sample_limit \<and> distinct idxs \<and>
              (\<forall>i \<in> set idxs. i < length ?d) \<and> out = map (\<lambda>i. ?d ! i) idxs)"
  proof
    assume a: "0 < sample_limit \<and> sample_limit < length ?d"
    then have v: "valid_draw (length ?d) sample_limit (draw (length ?d) sample_limit)"
      using assms(1) by simp
    then have len: "length (df_sample draw sample_limit ?d) = sample_limit"
      by (rule df_sample_subset(2))
    then have ne: "df_sample draw sample_limit ?d \<noteq> []"
      using a by auto
    have "load_and_prepare_data draw sample_limit df = Inr (df_sample draw sample_limit ?d)"
      using a ne by (simp add: load_present [OF assms(2)] Let_def)
    moreover have "distinct (draw (length ?d) sample_limit)"
      "\<forall>i \<in> set (draw (length ?d) sample_limit). i < length ?d"
      using v by (simp_all add: valid_draw_def list_all_iff)
    ultimately show "\<exists>out idxs. load_and_prepare_data draw sample_limit df = Inr out \<and>
              length out = sample_limit \<and> distinct idxs \<and>
              (\<forall>i \<in> set idxs. i < length ?d) \<and> out = map (\<lambda>i. ?d ! i) idxs"
      using len by (intro exI [of _ "df_sample draw sample_limit ?d"]
                          exI [of _ "draw (length ?d) sample_limit"]) (simp add: df_sample_def)
  qed
  show "0 < length ?d \<and> length ?d \<le> sample_limit \<longrightarrow>
           load_and_prepare_data draw sample_limit df = Inr ?d"
    by (auto simp: load_present [OF assms(2)] Let_def)
qed

section \<open>Facts about count columns of integers and of booleans\<close>






lemma with_circle_size_keys:
  "map (\<lambda>r. (iyear r, targtype1_txt r)) (with_circle_size f rs) =
   map (\<lambda>r. (iyear r, targtype1_txt r)) rs"
  by (simp add: with_circle_size_def comp_def)

lemma with_circle_size_counts:
  "map (\<lambda>r. (iyear r, targtype1_txt r, nkill r, nwound r)) (with_circle_size f rs) =
   map (\<lambda>r. (iyear r, targtype1_txt r, nkill r, nwound r)) rs"
  by (simp add: with_circle_size_def comp_def)

lemma add_casualties_typed_cases:
  "add_casualties_typed rs = Inl NotImplementedError \<or>
   (\<exists>f. add_casualties_typed rs = Inr (with_circle_size f rs))"
proof (cases "series_max_typed (map (\<lambda>r. num_add (nkill r) (nwound r)) rs)")
  case None
  then show ?thesis by (simp add: add_casualties_typed_def Let_def) blast
next
  case (Some m)
  show ?thesis
  proof (cases "0 < num_val m")
    case False
    then show ?thesis using Some by (simp add: add_casualties_typed_def Let_def) blast
  next
    case True
    show ?thesis
    proof (cases "list_all is_boolean (map (\<lambda>r. num_add (nkill r) (nwound r)) rs)")
      case True
      then show ?thesis using Some \<open>0 < num_val m\<close>
        by (simp add: add_casualties_typed_def Let_def)
    next
      case False
      then show ?thesis using Some \<open>0 < num_val m\<close>
        by (simp add: add_casualties_typed_def Let_def) blast
    qed
  qed
qed

lemma retained_typed_Inl: "retained_typed rs = Inl e \<Longrightarrow> e = NotImplementedError"
  using add_casualties_typed_cases [of "cleaned_typed rs"] by (auto simp: retained_typed_def)

lemma retained_typed_Inr:
  assumes "retained_typed rs = Inr d"
  obtains f where "d = with_circle_size f (cleaned_typed rs)"
  using assms add_casualties_typed_cases [of "cleaned_typed rs"]
  by (auto simp: retained_typed_def)

lemma load_typed_present:
  assumes "set required_cols \<subseteq> set (columns df)"
  shows "load_and_prepare_data_typed draw n df =
           (case retained_typed (rows df) of
              Inl e \<Rightarrow> Inl e
            | Inr d \<Rightarrow>
                (let d' = (if length d > n then df_sample draw n d else d)
                 in if d' = [] then Inl CannotConvertNaN else Inr d'))"
proof -
  have m: "missing_column (columns df) required_cols = None"
    using assms by (simp add: missing_column_None)
  show ?thesis
  proof (cases "retained_typed (rows df)")
    case (Inl e)
    then show ?thesis by (simp add: load_and_prepare_data_typed_def m)
  next
    case (Inr d)
    show ?thesis
      unfolding load_and_prepare_data_typed_def m Inr Let_def
      by (cases "(if length d > n then df_sample draw n d else d)")
         (simp_all add: year_range_Nil year_range_Cons)
  qed
qed




lemma cleaned_typed_core:
  "map (\<lambda>r. (Number (iyear r), Some (targtype1_txt r), nkill r, nwound r)) (cleaned_typed rs) =
   map (\<lambda>r. (iyear r, targtype1_txt r, fillna_typed 0 (to_numeric_typed (nkill r)),
              fillna_typed 0 (to_numeric_typed (nwound r))))
     (filter (\<lambda>r. case iyear r of Number y \<Rightarrow> 1900 < y \<and> targtype1_txt r \<noteq> None | _ \<Rightarrow> False) rs)"
proof (induction rs)
  case Nil
  show ?case by (simp add: cleaned_typed_def after_1900_typed_def)
next
  case (Cons r rs)
  then show ?case
    by (cases "iyear r"; cases "targtype1_txt r")
       (auto simp: cleaned_typed_def after_1900_typed_def coerce_row_typed_def)
qed

lemma cleaned_typed_keys_upd:
  "map (\<lambda>r. (iyear r, targtype1_txt r))
     (cleaned_typed (map (\<lambda>r. r \<lparr> nkill := k r, nwound := w r \<rparr>) rs)) =
   map (\<lambda>r. (iyear r, targtype1_txt r)) (cleaned_typed rs)"
  by (induction rs)
     (auto simp: cleaned_typed_def after_1900_typed_def coerce_row_typed_def split: option.splits)

lemma load_typed_keys:
  assumes eq: "map (\<lambda>r. (iyear r, targtype1_txt r)) (cleaned_typed (rows df1)) =
               map (\<lambda>r. (iyear r, targtype1_txt r)) (cleaned_typed (rows df2))"
    and cols: "columns df1 = columns df2"
    and v: "\<And>len k. k \<le> len \<Longrightarrow> valid_draw len k (draw len k)"
    and n1: "load_and_prepare_data_typed draw n df1 \<noteq> Inl NotImplementedError"
    and n2: "load_and_prepare_data_typed draw n df2 \<noteq> Inl NotImplementedError"
  shows "map_sum id (map (\<lambda>r. (iyear r, targtype1_txt r))) (load_and_prepare_data_typed draw n df1) =
         map_sum id (map (\<lambda>r. (iyear r, targtype1_txt r))) (load_and_prepare_data_typed draw n df2)"
proof (cases "missing_column (columns df1) required_cols")
  case (Some col)
  then show ?thesis
    by (simp add: load_and_prepare_data_typed_def cols [symmetric])
next
  case None
  then have t1: "set required_cols \<subseteq> set (columns df1)"
    by (simp add: missing_column_None)
  then have t2: "set required_cols \<subseteq> set (columns df2)"
    by (simp add: cols)
  define f :: "typed_prepared_row \<Rightarrow> rat \<times> string" where "f = (\<lambda>r. (iyear r, targtype1_txt r))"
  obtain d1 where r1: "retained_typed (rows df1) = Inr d1"
    using n1 retained_typed_Inl [of "rows df1"]
    by (cases "retained_typed (rows df1)") (auto simp: load_typed_present [OF t1])
  obtain d2 where r2: "retained_typed (rows df2) = Inr d2"
    using n2 retained_typed_Inl [of "rows df2"]
    by (cases "retained_typed (rows df2)") (auto simp: load_typed_present [OF t2])
  from r1 obtain f1 where "d1 = with_circle_size f1 (cleaned_typed (rows df1))"
    by (rule retained_typed_Inr)
  moreover from r2 obtain f2 where "d2 = with_circle_size f2 (cleaned_typed (rows df2))"
    by (rule retained_typed_Inr)
  ultimately have eq': "map f d1 = map f d2"
    using eq by (simp add: f_def with_circle_size_keys)
  define s1 where "s1 = (if length d1 > n then df_sample draw n d1 else d1)"
  define s2 where "s2 = (if length d2 > n then df_sample draw n d2 else d2)"
  have len: "length d1 = length d2"
    using eq' by (rule map_eq_imp_length_eq)
  have s: "map f s1 = map f s2"
  proof (cases "length d1 > n")
    case True
    then have "valid_draw (length d1) n (draw (length d1) n)"
      using v by simp
    then have "map f (df_sample draw n d1) = map f (df_sample draw n d2)"
      using eq' by (intro sample_keys)
    then show ?thesis using True len by (simp only: s1_def s2_def if_True)
  next
    case False
    then show ?thesis using eq' len by (simp only: s1_def s2_def if_False)
  qed
  have e: "s1 = [] \<longleftrightarrow> s2 = []"
    using map_is_Nil_conv [of f s1] map_is_Nil_conv [of f s2] by (simp only: s)
  have l1: "load_and_prepare_data_typed draw n df1 =
              (if s1 = [] then Inl CannotConvertNaN else Inr s1)"
    unfolding load_typed_present [OF t1] r1 Let_def s1_def by simp
  have l2: "load_and_prepare_data_typed draw n df2 =
              (if s2 = [] then Inl CannotConvertNaN else Inr s2)"
    unfolding load_typed_present [OF t2] r2 Let_def s2_def by simp
  have "map_sum id (map f) (load_and_prepare_data_typed draw n df1) =
        map_sum id (map f) (load_and_prepare_data_typed draw n df2)"
  proof (cases "s1 = []")
    case True
    then show ?thesis using e by (simp add: l1 l2)
  next
    case False
    then show ?thesis using e s by (simp add: l1 l2)
  qed
  then show ?thesis by (simp only: f_def)
qed

text \<open>
  On a frame of cells the two functions agree: \<open>load_and_prepare_data\<close> is
  \<open>load_and_prepare_data_typed\<close> on count columns of floats or objects.
\<close>

lemma fold_max_Float64:
  "fold (\<lambda>y m. if num_val m < num_val y then y else m) (map Float64 xs) (Float64 x) =
   Float64 (fold max xs x)"
  by (induction xs arbitrary: x) (auto simp: max_def)

lemma series_max_typed_Float64:
  "series_max_typed (map Float64 xs) = map_option Float64 (series_max xs)"
  by (cases xs) (simp_all add: fold_max_Float64)

lemma cleaned_typed_cells:
  "cleaned_typed (map cell_row rs) =
   map (\<lambda>r. \<lparr> iyear = iyear r, targtype1_txt = targtype1_txt r,
                nkill = Float64 (nkill r), nwound = Float64 (nwound r) \<rparr>)
     (after_1900 (dropna (map coerce_row rs)))"
proof (induction rs)
  case Nil
  show ?case by (simp add: cleaned_typed_def after_1900_typed_def after_1900_def)
next
  case (Cons r rs)
  have k: "fillna_typed 0 (map_option Float64 (to_numeric c)) = Float64 (fillna 0 (to_numeric c))" for c
    by (cases c) simp_all
  from Cons show ?case
    by (cases "to_numeric (iyear r)"; cases "targtype1_txt r")
       (simp_all add: cleaned_typed_def after_1900_typed_def after_1900_def
          coerce_row_typed_def coerce_row_def cell_row_def k)
qed

lemma retained_typed_cells:
  "map_sum id (map row_values) (retained_typed (map cell_row rs)) = Inr (retained rs)"
proof -
  define cs where "cs = after_1900 (dropna (map coerce_row rs))"
  define lift :: "clean_row \<Rightarrow> typed_clean_row" where
    "lift = (\<lambda>r. \<lparr> iyear = iyear r, targtype1_txt = targtype1_txt r,
                nkill = Float64 (nkill r), nwound = Float64 (nwound r) \<rparr>)"
  have c: "cleaned_typed (map cell_row rs) = map lift cs"
    by (simp add: cleaned_typed_cells cs_def lift_def)
  have tot: "map (\<lambda>r. num_add (nkill r) (nwound r)) (map lift cs) =
             map Float64 (map (\<lambda>r. nkill r + nwound r) cs)"
    by (simp add: lift_def comp_def)
  have nb: "\<not> list_all is_boolean (map Float64 xs)" if "xs \<noteq> []" for xs
    using that by (cases xs) simp_all
  have "map_sum id (map row_values) (add_casualties_typed (map lift cs)) = Inr (add_casualties cs)"
  proof (cases "map (\<lambda>r. nkill r + nwound r) cs")
    case Nil
    then have "cs = []" by simp
    then show ?thesis
      by (simp add: add_casualties_typed_def add_casualties_def with_circle_size_def)
  next
    case (Cons x xs)
    then have ne: "map (\<lambda>r. nkill r + nwound r) cs \<noteq> []" by simp
    obtain m where m: "series_max (map (\<lambda>r. nkill r + nwound r) cs) = Some m"
      using Cons by simp
    show ?thesis
      unfolding add_casualties_typed_def add_casualties_def Let_def tot
        series_max_typed_Float64 m
      using nb [OF ne]
      by (simp add: with_circle_size_def row_values_def lift_def circle_size_of_def comp_def)
  qed
  then show ?thesis
    by (simp add: retained_typed_def retained_def c cs_def)
qed


lemma df_sample_map:
  assumes "valid_draw (length d) n (draw (length d) n)"
  shows "map f (df_sample draw n d) = df_sample draw n (map f d)"
proof -
  have "\<forall>i \<in> set (draw (length d) n). i < length d"
    using assms by (simp add: valid_draw_def list_all_iff)
  then show ?thesis by (simp add: df_sample_def)
qed

lemma load_typed_cells:
  assumes "\<And>len k. k \<le> len \<Longrightarrow> valid_draw len k (draw len k)"
  shows "map_sum id (map row_values)
           (load_and_prepare_data_typed draw n \<lparr> columns = columns df, rows = map cell_row (rows df) \<rparr>) =
         load_and_prepare_data draw n df"
proof (cases "missing_column (columns df) required_cols")
  case (Some col)
  then show ?thesis
    by (simp add: load_and_prepare_data_typed_def load_and_prepare_data_def)
next
  case None
  then have t: "set required_cols \<subseteq> set (columns df)"
    by (simp add: missing_column_None)
  then have t': "set required_cols \<subseteq>
                 set (columns \<lparr> columns = columns df, rows = map cell_row (rows df) \<rparr>)"
    by simp
  obtain d where d: "retained_typed (map cell_row (rows df)) = Inr d"
    and dv: "map row_values d = retained (rows df)"
    using retained_typed_cells [of "rows df"]
    by (cases "retained_typed (map cell_row (rows df))") simp_all
  have len: "length d = length (retained (rows df))"
    using dv by (metis length_map)
  define s where "s = (if length d > n then df_sample draw n d else d)"
  have sv: "map row_values s =
            (if length (retained (rows df)) > n then df_sample draw n (retained (rows df))
             else retained (rows df))"
  proof (cases "length d > n")
    case True
    then have "valid_draw (length d) n (draw (length d) n)"
      using assms by simp
    then have "map row_values (df_sample draw n d) = df_sample draw n (map row_values d)"
      by (rule df_sample_map)
    then show ?thesis using True len by (simp add: s_def dv)
  next
    case False
    then show ?thesis using len by (simp add: s_def dv)
  qed
  have l: "load_and_prepare_data_typed draw n
             \<lparr> columns = columns df, rows = map cell_row (rows df) \<rparr> =
           (if s = [] then Inl CannotConvertNaN else Inr s)"
    unfolding load_typed_present [OF t'] Let_def s_def using d by simp
  show ?thesis
  proof (cases "s = []")
    case True
    then show ?thesis
      using sv by (simp add: l load_present [OF t] Let_def)
  next
    case False
    then have "map row_values s \<noteq> []" by simp
    then show ?thesis
      using False sv by (simp add: l load_present [OF t] Let_def)
  qed
qed

section \<open>Facts about the callback\<close>

declare filter_loop.simps [simp del]

lemma js_add_Finite_0: "js_add k (Finite 0) = k"
  by (cases k) simp_all

lemma js_add_Finite_assoc: "js_add (js_add k (Finite a)) (Finite b) = js_add k (Finite (a + b))"
  by (cases k) simp_all

lemma js_get_map: "i < length xs \<Longrightarrow> js_get (map f xs) i = Some (f (xs ! i))"
  by (simp add: js_get_def)

lemma filter_loop_rows:
  fixes df :: "drawn_row list" and start end' :: rat and selected :: "string option list"
  defines "P \<equiv> \<lambda>r. start \<le> iyear r \<and> iyear r \<le> end' \<and> Some (targtype1_txt r) \<in> set selected"
  shows "filter_loop (to_dict_list df) start end' selected i (nd, k, w) =
     (nd \<lparr> iyear := iyear nd @ map (Some \<circ> iyear) (filter P (drop i df)),
           targtype1_txt := targtype1_txt nd @ map (Some \<circ> targtype1_txt) (filter P (drop i df)),
           nkill := nkill nd @ map (Some \<circ> nkill) (filter P (drop i df)),
           nwound := nwound nd @ map (Some \<circ> nwound) (filter P (drop i df)),
           total_casualties := total_casualties nd @ map (Some \<circ> total_casualties) (filter P (drop i df)),
           circle_size := circle_size nd @ map (Some \<circ> circle_size) (filter P (drop i df)),
           color := color nd @ map (Some \<circ> color) (filter P (drop i df)) \<rparr>,
      js_add k (Finite (sum_list (map nkill (filter P (drop i df))))),
      js_add w (Finite (sum_list (map nwound (filter P (drop i df))))))"
proof (induction "length df - i" arbitrary: i nd k w)
  case 0
  then have "\<not> i < length (iyear (to_dict_list df))" and d: "drop i df = []"
    by (simp_all add: to_dict_list_def)
  then show ?case
    by (subst filter_loop.simps) (simp add: d js_add_Finite_0)
next
  case (Suc n)
  then have lt: "i < length df" and n: "n = length df - Suc i" by simp_all
  have d: "drop i df = df ! i # drop (Suc i) df"
    using lt by (simp add: Cons_nth_drop_Suc)
  have len: "i < length (iyear (to_dict_list df))"
    using lt by (simp add: to_dict_list_def)
  have cond: "(js_ge (js_get (iyear (to_dict_list df)) i) start \<and>
               js_le (js_get (iyear (to_dict_list df)) i) end' \<and>
               js_get (targtype1_txt (to_dict_list df)) i \<in> set selected) = P (df ! i)"
    using lt by (simp add: to_dict_list_def js_get_map P_def)
  show ?case
  proof (cases "P (df ! i)")
    case True
    show ?thesis
      apply (subst filter_loop.simps)
      apply (simp only: len if_True Let_def cond True)
      apply (subst Suc(1) [OF n])
      using lt True
      apply (simp add: d to_dict_list_def js_get_map js_add_Finite_assoc)
      done
  next
    case False
    show ?thesis
      apply (subst filter_loop.simps)
      apply (simp only: len if_True Let_def cond False if_False)
      apply (subst Suc(1) [OF n])
      using lt False
      apply (simp add: d)
      done
  qed
qed

lemma filter_loop_from_start:
  fixes df :: "drawn_row list"
  shows "filter_loop (to_dict_list df) start end' selected 0 (empty_data, Finite 0, Finite 0) =
     (column_data (filter (\<lambda>r. start \<le> iyear r \<and> iyear r \<le> end' \<and> Some (targtype1_txt r) \<in> set selected) df),
      Finite (sum_list (map nkill (filter (\<lambda>r. start \<le> iyear r \<and> iyear r \<le> end' \<and> Some (targtype1_txt r) \<in> set selected) df))),
      Finite (sum_list (map nwound (filter (\<lambda>r. start \<le> iyear r \<and> iyear r \<le> end' \<and> Some (targtype1_txt r) \<in> set selected) df))))"
  by (simp add: filter_loop_rows empty_data_def column_data_def)

lemma callback_unfold:
  assumes sv: "slider_value pg = (start, end')"
    and fl: "filter_loop (original_data pg) start end' (selected_labels pg) 0 (empty_data, Finite 0, Finite 0) = (nd, k, w)"
  shows "callback pg =
    (let pg3 = pg \<lparr> source := nd, plot_title := Years start end',
                     stats_div := \<lparr> showing = length (iyear nd), years = (start, end'),
                                     total_killed = k, total_wounded = w \<rparr> \<rparr>;
         pg4 = (if length (nkill nd) > 0
                 then pg3 \<lparr> x_range := \<lparr> range_start = js_add (Math_min (nkill nd)) (Finite (- 1)),
                                           range_end = js_add (Math_max (nkill nd)) (Finite 1) \<rparr>,
                             y_range := \<lparr> range_start = js_add (Math_min (nwound nd)) (Finite (- 1)),
                                           range_end = js_add (Math_max (nwound nd)) (Finite 1) \<rparr> \<rparr>
                 else pg3)
      in pg4 \<lparr> change_emitted := Suc (change_emitted pg4) \<rparr>)"
  unfolding callback_def Let_def sv prod.case fl
  by (rule refl)


lemma callback_fields:
  assumes sv: "slider_value pg = (start, end')"
    and fl: "filter_loop (original_data pg) start end' (selected_labels pg) 0 (empty_data, Finite 0, Finite 0) = (nd, k, w)"
  shows "source (callback pg) = nd"
    and "plot_title (callback pg) = Years start end'"
    and "stats_div (callback pg) = \<lparr> showing = length (iyear nd), years = (start, end'),
                                     total_killed = k, total_wounded = w \<rparr>"
    and "nkill nd = [] \<Longrightarrow> x_range (callback pg) = x_range pg"
    and "nkill nd = [] \<Longrightarrow> y_range (callback pg) = y_range pg"
proof -
  note u = callback_unfold [OF sv fl]
  show "source (callback pg) = nd"
    by (cases "0 < length (nkill nd)") (simp_all only: u Let_def if_True if_False, simp_all)
  show "plot_title (callback pg) = Years start end'"
    by (cases "0 < length (nkill nd)") (simp_all only: u Let_def if_True if_False, simp_all)
  show "stats_div (callback pg) = \<lparr> showing = length (iyear nd), years = (start, end'),
                                     total_killed = k, total_wounded = w \<rparr>"
    by (cases "0 < length (nkill nd)") (simp_all only: u Let_def if_True if_False, simp_all)
  show "x_range (callback pg) = x_range pg" if "nkill nd = []"
    using that by (simp only: u Let_def list.size less_irrefl if_False, simp)
  show "y_range (callback pg) = y_range pg" if "nkill nd = []"
    using that by (simp only: u Let_def list.size less_irrefl if_False, simp)
qed


lemma callback_rows:
  fixes df :: "drawn_row list"
  assumes od: "original_data pg = to_dict_list df" and sv: "slider_value pg = (start, end')"
  defines "kept \<equiv> filter (\<lambda>r. start \<le> iyear r \<and> iyear r \<le> end' \<and>
                                   Some (targtype1_txt r) \<in> set (selected_labels pg)) df"
  shows "source (callback pg) = column_data kept"
    and "plot_title (callback pg) = Years start end'"
    and "stats_div (callback pg) =
           \<lparr> showing = length kept, years = (start, end'),
             total_killed = Finite (sum_list (map nkill kept)),
             total_wounded = Finite (sum_list (map nwound kept)) \<rparr>"
    and "kept = [] \<Longrightarrow> x_range (callback pg) = x_range pg"
    and "kept = [] \<Longrightarrow> y_range (callback pg) = y_range pg"
proof -
  have fl: "filter_loop (original_data pg) start end' (selected_labels pg) 0
              (empty_data, Finite 0, Finite 0) =
            (column_data kept, Finite (sum_list (map nkill kept)),
             Finite (sum_list (map nwound kept)))"
    unfolding od kept_def by (rule filter_loop_from_start)
  note f = callback_fields [OF sv fl]
  show "source (callback pg) = column_data kept" by (rule f(1))
  show "plot_title (callback pg) = Years start end'" by (rule f(2))
  show "stats_div (callback pg) =
           \<lparr> showing = length kept, years = (start, end'),
             total_killed = Finite (sum_list (map nkill kept)),
             total_wounded = Finite (sum_list (map nwound kept)) \<rparr>"
    using f(3) by (simp add: column_data_def)
  show "x_range (callback pg) = x_range pg" if "kept = []"
    by (rule f(4)) (simp add: that column_data_def)
  show "y_range (callback pg) = y_range pg" if "kept = []"
    by (rule f(5)) (simp add: that column_data_def)
qed

lemma set_unique: "set (unique xs) = set xs"
  by (induction xs rule: unique.induct) auto

lemma distinct_unique: "distinct (unique xs)"
  by (induction xs rule: unique.induct) (auto simp: set_unique)

lemma create_color_mapping_targets:
  assumes "create_color_mapping pal df = Inr (color_map, unique_targets)"
  shows "unique_targets = sort (unique (map targtype1_txt df))"
  using assms by (auto simp: create_color_mapping_def Let_def split: if_splits option.splits)

lemma create_visualization_page:
  assumes "create_visualization pal df0 = Inr pg"
  obtains color_map year_min year_max where
    "df0 \<noteq> []"
    "source pg = column_data (add_color color_map df0)"
    "original_data pg = to_dict_list (add_color color_map df0)"
    "checkbox_labels pg = sort (unique (map targtype1_txt df0))"
    "checkbox_active pg = [0..<length (checkbox_labels pg)]"
    "legend_field pg = ''targtype1_txt''"
    "slider_value pg = (of_int year_min, of_int year_max)"
proof -
  from assms obtain p where cm0: "create_color_mapping pal df0 = Inr p"
    by (cases "create_color_mapping pal df0") (simp_all add: create_visualization_def)
  obtain color_map unique_targets where p: "p = (color_map, unique_targets)"
    by (cases p)
  have cm: "create_color_mapping pal df0 = Inr (color_map, unique_targets)"
    using cm0 p by simp
  have ut: "unique_targets = sort (unique (map targtype1_txt df0))"
    using cm by (rule create_color_mapping_targets)
  from assms obtain q where yr0: "year_range (map iyear (add_color color_map df0)) = Inr q"
    by (cases "year_range (map iyear (add_color color_map df0))")
       (simp_all add: create_visualization_def cm)
  obtain year_min year_max where q: "q = (year_min, year_max)" by (cases q)
  have yr: "year_range (map iyear (add_color color_map df0)) = Inr (year_min, year_max)"
    using yr0 q by simp
  have ne: "df0 \<noteq> []"
    using yr by (auto simp: add_color_def year_range_Nil)
  {
    have pg: "Inr \<lparr> source = column_data (add_color color_map df0),
                        original_data = to_dict_list (add_color color_map df0),
                        slider_start = of_int year_min,
                        slider_end = of_int year_max,
                        slider_value = (of_int year_min, of_int year_max),
                        checkbox_labels = unique_targets,
                        checkbox_active = [0..<length unique_targets],
                        plot_title = AllYears,
                        stats_div = \<lparr> showing = length (add_color color_map df0),
                                      years = (of_int year_min, of_int year_max),
                                      total_killed = Finite (sum_list (map nkill (add_color color_map df0))),
                                      total_wounded = Finite (sum_list (map nwound (add_color color_map df0))) \<rparr>,
                        x_range = \<lparr> range_start = NaN, range_end = NaN \<rparr>,
                        y_range = \<lparr> range_start = NaN, range_end = NaN \<rparr>,
                        legend_field = ''targtype1_txt'',
                        change_emitted = 0 \<rparr> = (Inr pg :: error + page)"
      using assms by (simp only: create_visualization_def cm Let_def yr sum.case prod.case)
    have pg': "pg = \<lparr> source = column_data (add_color color_map df0),
                        original_data = to_dict_list (add_color color_map df0),
                        slider_start = of_int year_min,
                        slider_end = of_int year_max,
                        slider_value = (of_int year_min, of_int year_max),
                        checkbox_labels = unique_targets,
                        checkbox_active = [0..<length unique_targets],
                        plot_title = AllYears,
                        stats_div = \<lparr> showing = length (add_color color_map df0),
                                      years = (of_int year_min, of_int year_max),
                                      total_killed = Finite (sum_list (map nkill (add_color color_map df0))),
                                      total_wounded = Finite (sum_list (map nwound (add_color color_map df0))) \<rparr>,
                        x_range = \<lparr> range_start = NaN, range_end = NaN \<rparr>,
                        y_range = \<lparr> range_start = NaN, range_end = NaN \<rparr>,
                        legend_field = ''targtype1_txt'',
                        change_emitted = 0 \<rparr>"
      using pg by (simp only: sum.inject)
    have ?thesis
      by (rule that [of color_map year_min year_max]) (simp_all add: pg' ne ut)
  }
  then show ?thesis .
qed

lemma turbo_colors_Some:
  "\<forall>i \<in> set is. i * step < length turbo \<Longrightarrow> \<exists>cs. turbo_colors turbo step is = Some cs"
  by (induction "is") auto

lemma turbo_index_bound:
  fixes n L :: nat
  assumes "i < n" and "0 < L"
  shows "i * (L div n) < L"
proof (cases "L div n = 0")
  case True
  then show ?thesis using assms by simp
next
  case False
  have "i * (L div n) < n * (L div n)"
    using assms(1) False by simp
  also have "\<dots> \<le> L"
    by (simp add: mult.commute)
  finally show ?thesis .
qed

lemma create_color_mapping_total:
  assumes "Turbo256 pal \<noteq> []"
  shows "\<exists>color_map. create_color_mapping pal df =
           Inr (color_map, sort (unique (map targtype1_txt df)))"
proof (cases "length (sort (unique (map targtype1_txt df))) \<le> 20")
  case True
  then show ?thesis by (simp add: create_color_mapping_def Let_def)
next
  case False
  let ?n = "length (sort (unique (map targtype1_txt df)))"
  have "\<forall>i \<in> set [0..<?n]. i * (length (Turbo256 pal) div ?n) < length (Turbo256 pal)"
    using assms by (auto intro: turbo_index_bound)
  then obtain cs where "turbo_colors (Turbo256 pal) (length (Turbo256 pal) div ?n) [0..<?n] = Some cs"
    using turbo_colors_Some by blast
  then show ?thesis using False by (simp add: create_color_mapping_def Let_def)
qed

lemma create_visualization_total:
  assumes "df \<noteq> []" and "Turbo256 pal \<noteq> []"
  shows "\<exists>pg. create_visualization pal df = Inr pg"
proof -
  obtain color_map where cm: "create_color_mapping pal df =
           Inr (color_map, sort (unique (map targtype1_txt df)))"
    using create_color_mapping_total [OF assms(2)] by blast
  obtain r rs where "add_color color_map df = r # rs"
    using assms(1) by (cases df) (simp_all add: add_color_def)
  then have "year_range (map iyear (add_color color_map df)) =
               Inr (py_int (fold min (map iyear rs) (iyear r)), py_int (fold max (map iyear rs) (iyear r)))"
    by (simp add: year_range_Cons)
  then show ?thesis
    by (simp add: create_visualization_def cm Let_def)
qed

section \<open>The errors of the page and of the other script\<close>

lemma create_color_mapping_error:
  "create_color_mapping pal df = Inl e \<Longrightarrow> e = IndexError"
  by (auto simp: create_color_mapping_def Let_def split: if_splits option.splits)

lemma year_range_error: "year_range ys = Inl e \<Longrightarrow> e = CannotConvertNaN"
  by (cases ys) (simp_all add: year_range_Nil year_range_Cons)

lemma create_visualization_error:
  assumes "create_visualization pal df = Inl e"
  shows "e = IndexError \<or> e = CannotConvertNaN"
proof (cases "create_color_mapping pal df")
  case (Inl e')
  then have "e = e'" using assms by (simp add: create_visualization_def)
  then show ?thesis using create_color_mapping_error [OF Inl] by simp
next
  case (Inr p)
  obtain color_map unique_targets where p: "p = (color_map, unique_targets)" by (cases p)
  have cm: "create_color_mapping pal df = Inr (color_map, unique_targets)"
    using Inr p by simp
  show ?thesis
  proof (cases "year_range (map iyear (add_color color_map df))")
    case (Inl e')
    then have "e = e'" using assms by (simp add: create_visualization_def cm Let_def)
    then show ?thesis using year_range_error [OF Inl] by simp
  next
    case yr: (Inr q)
    obtain year_min year_max where q: "q = (year_min, year_max)" by (cases q)
    have "year_range (map iyear (add_color color_map df)) = Inr (year_min, year_max)"
      using yr q by simp
    then show ?thesis using assms by (simp add: create_visualization_def cm Let_def)
  qed
qed

lemma attack_pivot_error:
  "attack_pivot adf = Inl e \<Longrightarrow> \<exists>col. e = KeyError col"
  by (auto simp: attack_pivot_def Let_def split: option.splits)

section \<open>The sample data, evaluated\<close>

lemma example_draw_valid: "k \<le> len \<Longrightarrow> valid_draw len k (example_draw len k)"
  by (auto simp: valid_draw_def example_draw_def list_all_iff)

lemma example_retained: "retained example_rows = example_prepared"
  by (simp add: retained_def example_rows_def example_prepared_def coerce_row_def after_1900_def
        add_casualties_def circle_size_of_def Let_def)

lemma example_columns: "set required_cols \<subseteq> set (columns example_frame)"
  by (simp add: example_frame_def)

lemma example_frame_retained: "retained (rows example_frame) = example_prepared"
  by (simp add: example_frame_def example_retained)

lemma example_load_all:
  "load_and_prepare_data example_draw 50000 example_frame = Inr example_prepared"
  unfolding load_present [OF example_columns] example_frame_retained Let_def
  by (simp add: example_prepared_def)

lemma example_load_sampled:
  "load_and_prepare_data example_draw 2 example_frame = Inr (rev (tl example_prepared))"
  unfolding load_present [OF example_columns] example_frame_retained Let_def
  by (simp add: example_prepared_def df_sample_def example_draw_def upt_rec)

lemma example_page_data:
  "original_data example_page = to_dict_list example_points"
  "slider_value example_page = (2001, 2011)"
  "selected_labels example_page = [Some ''Business'', Some ''Military'', Some ''Police'']"
  by (simp_all add: example_page_def selected_labels_def js_get_def)

lemma example_unchecked_data:
  "original_data (example_page \<lparr> checkbox_active := [] \<rparr>) = to_dict_list example_points"
  "slider_value (example_page \<lparr> checkbox_active := [] \<rparr>) = (2001, 2011)"
  "selected_labels (example_page \<lparr> checkbox_active := [] \<rparr>) = []"
  by (simp_all add: example_page_def selected_labels_def)

lemma example_sorted_targets:
  "sort (unique (map targtype1_txt example_prepared)) = [''Business'', ''Military'', ''Police'']"
  by (simp add: example_prepared_def less_eq_char_def less_char_def)


lemma example_color_mapping:
  "create_color_mapping example_palettes example_prepared =
     Inr ([(''Business'', ''#1f77b4''), (''Military'', ''#aec7e8''), (''Police'', ''#ff7f0e'')],
          [''Business'', ''Military'', ''Police''])"
  unfolding create_color_mapping_def example_sorted_targets Let_def
  by (simp add: example_palettes_def)

lemma example_add_color:
  "add_color [(''Business'', ''#1f77b4''), (''Military'', ''#aec7e8''), (''Police'', ''#ff7f0e'')]
     example_prepared = example_points"
  by (simp add: add_color_def example_prepared_def example_points_def)

lemma example_year_range: "year_range (map iyear example_points) = Inr (2000, 2011)"
  by (simp add: example_points_def year_range_def py_int_def)

lemma example_visualization:
  "create_visualization example_palettes example_prepared =
     Inr (example_page
            \<lparr> slider_value := (2000, 2011),
              x_range := \<lparr> range_start = NaN, range_end = NaN \<rparr>,
              y_range := \<lparr> range_start = NaN, range_end = NaN \<rparr> \<rparr>)"
  unfolding create_visualization_def example_color_mapping sum.case prod.case Let_def
    example_add_color example_year_range
  by (simp add: example_page_def) (simp add: example_points_def)

lemma example_nonneg_load:
  "load_and_prepare_data example_draw 50000 (example_frame \<lparr> rows := take 5 example_rows \<rparr>) =
     Inr (take 2 example_prepared)"
proof -
  have c: "set required_cols \<subseteq> set (columns (example_frame \<lparr> rows := take 5 example_rows \<rparr>))"
    by (simp add: example_frame_def)
  have r: "retained (rows (example_frame \<lparr> rows := take 5 example_rows \<rparr>)) = take 2 example_prepared"
    by (simp add: retained_def example_rows_def example_prepared_def coerce_row_def after_1900_def
          add_casualties_def circle_size_of_def Let_def)
  show ?thesis
    unfolding load_present [OF c] r Let_def by (simp add: example_prepared_def)
qed

lemma example_nonneg_input:
  "\<forall>r \<in> set (rows (example_frame \<lparr> rows := take 5 example_rows \<rparr>)).
     (\<forall>q. nkill r = Number q \<longrightarrow> 0 \<le> q) \<and> (\<forall>q. nwound r = Number q \<longrightarrow> 0 \<le> q)"
  by (simp add: example_rows_def)

lemma example_nonneg_page:
  "original_data (example_page \<lparr> original_data := to_dict_list (take 2 example_points) \<rparr>) =
     to_dict_list (add_color [(''Military'', ''#aec7e8''), (''Police'', ''#ff7f0e'')]
                     (take 2 example_prepared))"
  by (simp add: add_color_def example_prepared_def example_points_def)

lemma example_nonneg_callback:
  "nkill (source (callback (example_page \<lparr> original_data := to_dict_list (take 2 example_points) \<rparr>))) =
     [Some 0]"
proof -
  have sv: "slider_value (example_page \<lparr> original_data := to_dict_list (take 2 example_points) \<rparr>) =
              (2001, 2011)"
    by (simp add: example_page_def)
  have od: "original_data (example_page \<lparr> original_data := to_dict_list (take 2 example_points) \<rparr>) =
              to_dict_list (take 2 example_points)"
    by simp
  have sl: "selected_labels (example_page \<lparr> original_data := to_dict_list (take 2 example_points) \<rparr>) =
              [Some ''Business'', Some ''Military'', Some ''Police'']"
    by (simp add: example_page_def selected_labels_def js_get_def)
  show ?thesis
    unfolding callback_rows(1) [OF od sv] sl
    by (simp add: example_points_def column_data_def)
qed



lemma example_bool_load:
  "load_and_prepare_data_typed example_draw 50000
     \<lparr> columns = required_cols, rows = example_bool_rows \<rparr> =
     Inr [\<lparr> iyear = 2000, targtype1_txt = ''Military'', nkill = Boolean True,
            nwound = Float64 2, total_casualties = Float64 3, circle_size = Float64 30 \<rparr>,
          \<lparr> iyear = 2005, targtype1_txt = ''Police'', nkill = Boolean False,
            nwound = Float64 0, total_casualties = Float64 0, circle_size = Float64 8 \<rparr>]"
  by (subst load_typed_present)
     (simp_all add: retained_typed_def cleaned_typed_def after_1900_typed_def
        coerce_row_typed_def example_bool_rows_def add_casualties_typed_def
        with_circle_size_def Let_def)

lemma example_two_bool_load:
  "load_and_prepare_data_typed example_draw 50000
     \<lparr> columns = required_cols, rows = example_two_bool_rows \<rparr> = Inl NotImplementedError"
  by (subst load_typed_present)
     (simp_all add: retained_typed_def cleaned_typed_def after_1900_typed_def
        coerce_row_typed_def example_two_bool_rows_def add_casualties_typed_def
        with_circle_size_def Let_def)

lemma example_numbers_load:
  "load_and_prepare_data_typed example_draw 50000
     \<lparr> columns = required_cols,
       rows = map (\<lambda>r. r \<lparr> nkill := Cell (Number 1), nwound := Cell (Number 0) \<rparr>)
                example_two_bool_rows \<rparr> =
     Inr [\<lparr> iyear = 2000, targtype1_txt = ''Military'', nkill = Float64 1,
            nwound = Float64 0, total_casualties = Float64 1, circle_size = Float64 30 \<rparr>,
          \<lparr> iyear = 2005, targtype1_txt = ''Police'', nkill = Float64 1,
            nwound = Float64 0, total_casualties = Float64 1, circle_size = Float64 30 \<rparr>]"
  by (subst load_typed_present)
     (simp_all add: retained_typed_def cleaned_typed_def after_1900_typed_def
        coerce_row_typed_def example_two_bool_rows_def add_casualties_typed_def
        with_circle_size_def Let_def)

section \<open>The claims\<close>

text \<open>
  C1. The callback is a function of the full data, the range of years and the ticked
  labels: the data that it gives the source are the rows of the full data, in their order
  and with their seven columns, whose year lies in the range (both ends included) and whose
  target type is among the ticked labels; the count and the two totals that it reports are
  the number of these rows and the sums of their \<open>nkill\<close> and \<open>nwound\<close>.
\<close>

theorem callback_is_pure_filter:
  fixes df :: "drawn_row list"
  assumes "original_data pg = to_dict_list df" and "slider_value pg = (start, end')"
  defines "kept \<equiv> filter (\<lambda>r. start \<le> iyear r \<and> iyear r \<le> end' \<and>
                                Some (targtype1_txt r) \<in> set (selected_labels pg)) df"
  shows "source (callback pg) = column_data kept \<and>
         showing (stats_div (callback pg)) = length kept \<and>
         total_killed (stats_div (callback pg)) = Finite (sum_list (map nkill kept)) \<and>
         total_wounded (stats_div (callback pg)) = Finite (sum_list (map nwound kept))"
  unfolding kept_def
  by (simp add: callback_rows(1) [OF assms(1,2)] callback_rows(3) [OF assms(1,2)])

theorem callback_is_pure_filter_witness:
  "original_data example_page = to_dict_list example_points \<and>
   slider_value example_page = (2001, 2011) \<and>
   source (callback example_page) =
     \<lparr> iyear = [Some 2005, Some 2011],
       targtype1_txt = [Some ''Police'', Some ''Business''],
       nkill = [Some 0, Some (- 5)], nwound = [Some 7, Some 1],
       total_casualties = [Some 7, Some (- 4)],
       circle_size = [Some 30, Some (- (32 / 7))],
       color = [Some (Some ''#ff7f0e''), Some (Some ''#1f77b4'')] \<rparr> \<and>
   showing (stats_div (callback example_page)) = 2 \<and>
   total_killed (stats_div (callback example_page)) = Finite (- 5) \<and>
   total_wounded (stats_div (callback example_page)) = Finite 8"
  using callback_is_pure_filter [OF example_page_data(1,2)]
  by (simp add: example_page_data example_points_def column_data_def)

text \<open>
  C10. When no row passes the filter, the callback still replaces the data of the source by
  the empty data and rewrites the title and the statistics (0 incidents, totals 0), and it
  leaves the two ranges of the plot as they were.
\<close>

theorem callback_no_rows_selected:
  fixes df :: "drawn_row list"
  assumes "original_data pg = to_dict_list df" and "slider_value pg = (start, end')"
    and "\<forall>r \<in> set df. \<not> (start \<le> iyear r \<and> iyear r \<le> end' \<and>
                             Some (targtype1_txt r) \<in> set (selected_labels pg))"
  shows "source (callback pg) = empty_data \<and>
         plot_title (callback pg) = Years start end' \<and>
         stats_div (callback pg) =
           \<lparr> showing = 0, years = (start, end'),
             total_killed = Finite 0, total_wounded = Finite 0 \<rparr> \<and>
         x_range (callback pg) = x_range pg \<and>
         y_range (callback pg) = y_range pg"
proof -
  have none: "filter (\<lambda>r. start \<le> iyear r \<and> iyear r \<le> end' \<and>
                Some (targtype1_txt r) \<in> set (selected_labels pg)) df = []"
    using assms(3) by (simp add: filter_empty_conv)
  note f = callback_rows [OF assms(1,2)]
  have "source (callback pg) = empty_data"
    using f(1) by (simp add: none column_data_def empty_data_def)
  moreover have "plot_title (callback pg) = Years start end'"
    by (rule f(2))
  moreover have "stats_div (callback pg) =
           \<lparr> showing = 0, years = (start, end'),
             total_killed = Finite 0, total_wounded = Finite 0 \<rparr>"
    using f(3) by (simp add: none)
  moreover have "x_range (callback pg) = x_range pg"
    by (rule f(4)) (rule none)
  moreover have "y_range (callback pg) = y_range pg"
    by (rule f(5)) (rule none)
  ultimately show ?thesis by simp
qed

theorem callback_no_rows_selected_witness:
  "selected_labels (example_page \<lparr> checkbox_active := [] \<rparr>) = [] \<and>
   source (on_checkbox_change [] example_page) = empty_data \<and>
   plot_title (on_checkbox_change [] example_page) = Years 2001 2011 \<and>
   stats_div (on_checkbox_change [] example_page) =
     \<lparr> showing = 0, years = (2001, 2011), total_killed = Finite 0, total_wounded = Finite 0 \<rparr> \<and>
   x_range (on_checkbox_change [] example_page) = \<lparr> range_start = Finite (- 6), range_end = Finite 4 \<rparr> \<and>
   y_range (on_checkbox_change [] example_page) = \<lparr> range_start = Finite (- 1), range_end = Finite 8 \<rparr>"
  using callback_no_rows_selected [OF example_unchecked_data(1,2)]
  by (simp add: example_unchecked_data on_checkbox_change_def) (simp add: example_page_def)

text \<open>
  C3. A row whose year is missing or is not a number, or whose target type is missing, is
  excluded: the frame before the sampling is the same with the row as without it. That
  frame holds, in their order, the rows that are not excluded so and whose year is not 1900
  or earlier; what the function returns is taken from it, and is all of it when it has no
  more rows than the limit.
\<close>

theorem rows_without_year_or_target_excluded:
  assumes "load_and_prepare_data draw sample_limit df = Inr out"
    and "\<And>len k. k \<le> len \<Longrightarrow> valid_draw len k (draw len k)"
  shows "(iyear r = Missing \<or> (\<exists>s. iyear r = Text s) \<or> targtype1_txt r = None \<longrightarrow>
            retained (xs @ r # ys) = retained (xs @ ys)) \<and>
         map (\<lambda>r. (Number (iyear r), Some (targtype1_txt r))) (retained rs) =
           map (\<lambda>r. (iyear r, targtype1_txt r))
             (filter (\<lambda>r. \<not> (iyear r = Missing \<or> (\<exists>s. iyear r = Text s) \<or>
                               targtype1_txt r = None \<or>
                               (\<exists>y. iyear r = Number y \<and> y \<le> 1900))) rs) \<and>
         set out \<subseteq> set (retained (rows df)) \<and>
         (length (retained (rows df)) \<le> sample_limit \<longrightarrow> out = retained (rows df))"
proof -
  have a: "iyear r = Missing \<or> (\<exists>s. iyear r = Text s) \<or> targtype1_txt r = None \<longrightarrow>
            retained (xs @ r # ys) = retained (xs @ ys)"
    using retained_skip [OF excluded_no_year] by blast
  have b: "map (\<lambda>r. (Number (iyear r), Some (targtype1_txt r))) (retained rs) =
           map (\<lambda>r. (iyear r, targtype1_txt r))
             (filter (\<lambda>r. \<not> (iyear r = Missing \<or> (\<exists>s. iyear r = Text s) \<or>
                               targtype1_txt r = None \<or>
                               (\<exists>y. iyear r = Number y \<and> y \<le> 1900))) rs)"
    using retained_year_target [of rs] by (simp only: kept_predicate)
  have c: "set out \<subseteq> set (retained (rows df))"
    using assms by (rule load_subset)
  have d: "length (retained (rows df)) \<le> sample_limit \<longrightarrow> out = retained (rows df)"
    using load_Inr(3) [OF assms(1)] by simp
  from a b c d show ?thesis by blast
qed


theorem rows_without_year_or_target_excluded_witness:
  "load_and_prepare_data example_draw 50000 example_frame = Inr example_prepared \<and>
   iyear (example_rows ! 2) = Text ''unknown'' \<and>
   retained (take 2 example_rows @ example_rows ! 2 # drop 3 example_rows) =
     retained (take 2 example_rows @ drop 3 example_rows) \<and>
   map (\<lambda>r. (Number (iyear r), Some (targtype1_txt r))) (retained example_rows) =
     [(Number 2000, Some ''Military''), (Number 2005, Some ''Police''),
      (Number 2011, Some ''Business'')] \<and>
   set example_prepared \<subseteq> set (retained (rows example_frame)) \<and>
   example_prepared = retained (rows example_frame)"
  using rows_without_year_or_target_excluded [OF example_load_all example_draw_valid,
          of "example_rows ! 2" "take 2 example_rows" "drop 3 example_rows" example_rows]
  by (simp add: example_load_all example_frame_retained)
     (simp add: example_rows_def example_prepared_def)

text \<open>
  C9. Every row that the function returns, and every row of the frame before the sampling,
  has a year after 1900; a row with a numeric year of 1900 or earlier is excluded, the
  frame being the same with the row as without it.
\<close>

theorem years_after_1900:
  assumes "load_and_prepare_data draw sample_limit df = Inr out"
    and "\<And>len k. k \<le> len \<Longrightarrow> valid_draw len k (draw len k)"
  shows "(\<forall>r \<in> set out. 1900 < iyear r) \<and>
         (\<forall>r \<in> set (retained rs). 1900 < iyear r) \<and>
         (iyear r0 = Number y \<and> y \<le> 1900 \<longrightarrow> retained (xs @ r0 # ys) = retained (xs @ ys))"
proof -
  have "set out \<subseteq> set (retained (rows df))"
    using assms by (rule load_subset)
  then have "\<forall>r \<in> set out. 1900 < iyear r"
    using retained_after_1900 by blast
  moreover have "\<forall>r \<in> set (retained rs). 1900 < iyear r"
    using retained_after_1900 by blast
  moreover have "iyear r0 = Number y \<and> y \<le> 1900 \<longrightarrow>
                   retained (xs @ r0 # ys) = retained (xs @ ys)"
    using retained_skip [OF excluded_old_year] by blast
  ultimately show ?thesis by blast
qed

theorem years_after_1900_witness:
  "load_and_prepare_data example_draw 2 example_frame = Inr (rev (tl example_prepared)) \<and>
   map iyear (rev (tl example_prepared)) = [2011, 2005] \<and>
   iyear (example_rows ! 1) = Number 1890 \<and>
   retained (take 1 example_rows @ example_rows ! 1 # drop 2 example_rows) =
     retained (take 1 example_rows @ drop 2 example_rows)"
  using years_after_1900 [OF example_load_sampled example_draw_valid,
          of example_rows "example_rows ! 1" 1890 "take 1 example_rows" "drop 2 example_rows"]
  by (simp add: example_load_sampled)
     (simp add: example_rows_def example_prepared_def)

text \<open>
  C6. \<open>load_and_prepare_data\<close> fails with the error that names a required column exactly when
  the header lacks one of \<open>iyear\<close>, \<open>targtype1_txt\<close>, \<open>nkill\<close>, \<open>nwound\<close>, and the column
  named is one that is lacking. With the four columns present it goes on to prepare the
  rows (and then fails only where it converts the year range of a frame without rows).
  Nothing else in the two scripts raises this error: \<open>create_visualization\<close> does not, and
  \<^verbatim>\<open>attack_types_plot.py\<close> checks no column itself.
\<close>

theorem required_columns_validation:
  "((\<exists>col. load_and_prepare_data draw sample_limit df = Inl (RequiredColumnNotFound col)) \<longleftrightarrow>
      \<not> set required_cols \<subseteq> set (columns df)) \<and>
   (load_and_prepare_data draw sample_limit df = Inl (RequiredColumnNotFound col) \<longrightarrow>
      col \<in> set required_cols \<and> col \<notin> set (columns df)) \<and>
   (set required_cols \<subseteq> set (columns df) \<longrightarrow>
      load_and_prepare_data draw sample_limit df =
        (let d = retained (rows df);
             d' = (if length d > sample_limit then df_sample draw sample_limit d else d)
         in if d' = [] then Inl CannotConvertNaN else Inr d')) \<and>
   create_visualization pal prepared \<noteq> Inl (RequiredColumnNotFound col) \<and>
   attack_pivot adf \<noteq> Inl (RequiredColumnNotFound col)"
proof -
  have present: "set required_cols \<subseteq> set (columns df) \<longrightarrow>
      load_and_prepare_data draw sample_limit df =
        (let d = retained (rows df);
             d' = (if length d > sample_limit then df_sample draw sample_limit d else d)
         in if d' = [] then Inl CannotConvertNaN else Inr d')"
    using load_present by blast
  have never: "load_and_prepare_data draw sample_limit df \<noteq> Inl (RequiredColumnNotFound c)"
    if "set required_cols \<subseteq> set (columns df)" for c
    using load_present [OF that, of draw sample_limit] by (simp add: Let_def)
  have iff: "(\<exists>col. load_and_prepare_data draw sample_limit df = Inl (RequiredColumnNotFound col)) \<longleftrightarrow>
      \<not> set required_cols \<subseteq> set (columns df)"
    using never load_absent [of df draw sample_limit] by blast
  have which: "load_and_prepare_data draw sample_limit df = Inl (RequiredColumnNotFound col) \<longrightarrow>
      col \<in> set required_cols \<and> col \<notin> set (columns df)"
  proof
    assume a: "load_and_prepare_data draw sample_limit df = Inl (RequiredColumnNotFound col)"
    then have "\<not> set required_cols \<subseteq> set (columns df)" using never by blast
    from load_absent [OF this, of draw sample_limit] a
    show "col \<in> set required_cols \<and> col \<notin> set (columns df)" by auto
  qed
  have vis: "create_visualization pal prepared \<noteq> Inl (RequiredColumnNotFound col)"
    using create_visualization_error [of pal prepared "RequiredColumnNotFound col"] by auto
  have att: "attack_pivot adf \<noteq> Inl (RequiredColumnNotFound col)"
    using attack_pivot_error [of adf "RequiredColumnNotFound col"] by auto
  from iff which present vis att show ?thesis by blast
qed

theorem required_columns_validation_witness:
  "load_and_prepare_data example_draw 50000
     (example_frame \<lparr> columns := [''iyear'', ''nkill'', ''nwound''] \<rparr>) =
     Inl (RequiredColumnNotFound ''targtype1_txt'') \<and>
   ''targtype1_txt'' \<notin> set (columns (example_frame \<lparr> columns := [''iyear'', ''nkill'', ''nwound''] \<rparr>)) \<and>
   load_and_prepare_data example_draw 50000 example_frame = Inr example_prepared"
proof -
  have l: "load_and_prepare_data example_draw 50000
     (example_frame \<lparr> columns := [''iyear'', ''nkill'', ''nwound''] \<rparr>) =
     Inl (RequiredColumnNotFound ''targtype1_txt'')"
    by (simp add: load_and_prepare_data_def required_cols_def)
  show ?thesis
    using required_columns_validation [of example_draw 50000
            "example_frame \<lparr> columns := [''iyear'', ''nkill'', ''nwound''] \<rparr>" "''targtype1_txt''"]
    by (simp add: l example_load_all)
qed

text \<open>
  C8 as it is stated does not hold: a negative number in the file stays negative, since
  nothing in lines 28 and 29 or after them looks at the sign. The sixth row of the sample
  has a kill count of - 5, and so has the row that is made of it.
\<close>

theorem negative_kill_count_counterexample:
  "load_and_prepare_data example_draw 50000 example_frame = Inr example_prepared \<and>
   nkill (example_rows ! 5) = Number (- 5) \<and>
   nkill (example_prepared ! 2) = - 5 \<and>
   nkill (example_prepared ! 2) < 0"
  by (simp add: example_load_all) (simp add: example_prepared_def example_rows_def)

text \<open>
  C8, amended. The kill and wound counts of the rows that the function returns are numbers,
  and they are not negative when no number in the two columns of the file is negative. The
  colouring of the rows and the callback's filtering keep that: every kill and wound count
  that the callback gives the source is a number that is not negative.
\<close>

theorem counts_nonnegative_when_input_is:
  assumes "load_and_prepare_data draw sample_limit df = Inr out"
    and "\<And>len k. k \<le> len \<Longrightarrow> valid_draw len k (draw len k)"
    and "\<forall>r \<in> set (rows df). (\<forall>q. nkill r = Number q \<longrightarrow> 0 \<le> q) \<and>
                               (\<forall>q. nwound r = Number q \<longrightarrow> 0 \<le> q)"
    and "original_data pg = to_dict_list (add_color color_map out)"
  shows "(\<forall>r \<in> set out. 0 \<le> nkill r \<and> 0 \<le> nwound r) \<and>
         (\<forall>r \<in> set (add_color color_map out). 0 \<le> nkill r \<and> 0 \<le> nwound r) \<and>
         (\<forall>v \<in> set (nkill (source (callback pg))). \<exists>q. v = Some q \<and> 0 \<le> q) \<and>
         (\<forall>v \<in> set (nwound (source (callback pg))). \<exists>q. v = Some q \<and> 0 \<le> q)"
proof -
  have sub: "set out \<subseteq> set (retained (rows df))"
    using assms(1,2) by (rule load_subset)
  have out: "0 \<le> nkill r \<and> 0 \<le> nwound r" if "r \<in> set out" for r
  proof -
    from that sub have "r \<in> set (retained (rows df))" by blast
    then obtain r0 where r0: "r0 \<in> set (rows df)"
      "nkill r = fillna 0 (to_numeric (nkill r0))" "nwound r = fillna 0 (to_numeric (nwound r0))"
      by (rule retained_counts_from_input)
    from assms(3) r0(1) have "(\<forall>q. nkill r0 = Number q \<longrightarrow> 0 \<le> q)"
      "(\<forall>q. nwound r0 = Number q \<longrightarrow> 0 \<le> q)" by blast+
    then show ?thesis using r0(2,3) by (simp add: fillna_nonneg)
  qed
  have col: "0 \<le> nkill r \<and> 0 \<le> nwound r" if "r \<in> set (add_color color_map out)" for r
    using that out by (auto simp: add_color_def)
  obtain start end' where sv: "slider_value pg = (start, end')"
    by (cases "slider_value pg")
  define kept where "kept = filter (\<lambda>r. start \<le> iyear r \<and> iyear r \<le> end' \<and>
                        Some (targtype1_txt r) \<in> set (selected_labels pg)) (add_color color_map out)"
  have src: "source (callback pg) = column_data kept"
    unfolding kept_def by (rule callback_rows(1) [OF assms(4) sv])
  have k: "0 \<le> nkill r \<and> 0 \<le> nwound r" if "r \<in> set kept" for r
    using that col by (simp add: kept_def)
  have "\<forall>v \<in> set (nkill (source (callback pg))). \<exists>q. v = Some q \<and> 0 \<le> q"
    using k by (auto simp: src column_data_def)
  moreover have "\<forall>v \<in> set (nwound (source (callback pg))). \<exists>q. v = Some q \<and> 0 \<le> q"
    using k by (auto simp: src column_data_def)
  ultimately show ?thesis using out col by blast
qed

theorem counts_nonnegative_when_input_is_witness:
  "load_and_prepare_data example_draw 50000 (example_frame \<lparr> rows := take 5 example_rows \<rparr>) =
     Inr (take 2 example_prepared) \<and>
   map nkill (take 2 example_prepared) = [3, 0] \<and>
   map nwound (take 2 example_prepared) = [0, 7] \<and>
   nkill (source (callback (example_page \<lparr> original_data := to_dict_list (take 2 example_points) \<rparr>))) =
     [Some 0]"
  using counts_nonnegative_when_input_is
          [OF example_nonneg_load example_draw_valid example_nonneg_input example_nonneg_page]
  by (simp add: example_nonneg_load example_nonneg_callback) (simp add: example_prepared_def)

text \<open>
  C5. The function does not return when the frame to return has no row: the conversion of
  the year range (line 45) raises. That is so for a file whose rows all lack a year, for a
  file without rows, and for a limit of 0 on a file with rows to keep.
\<close>

theorem empty_frame_raises:
  "load_and_prepare_data draw 50000
     \<lparr> columns = required_cols,
       rows = [\<lparr> iyear = Missing, targtype1_txt = Some ''Military'',
                 nkill = Number 1, nwound = Number 0 \<rparr>] \<rparr> = Inl CannotConvertNaN \<and>
   load_and_prepare_data draw 50000 \<lparr> columns = required_cols, rows = [] \<rparr> =
     Inl CannotConvertNaN \<and>
   retained (rows example_frame) = example_prepared \<and>
   load_and_prepare_data example_draw 0 example_frame = Inl CannotConvertNaN"
proof -
  have a: "load_and_prepare_data draw 50000
     \<lparr> columns = required_cols,
       rows = [\<lparr> iyear = Missing, targtype1_txt = Some ''Military'',
                 nkill = Number 1, nwound = Number 0 \<rparr>] \<rparr> = Inl CannotConvertNaN"
    by (subst load_present)
       (simp_all add: retained_def coerce_row_def after_1900_def add_casualties_def Let_def)
  have b: "load_and_prepare_data draw 50000 \<lparr> columns = required_cols, rows = [] \<rparr> =
     Inl CannotConvertNaN"
    by (subst load_present)
       (simp_all add: retained_def after_1900_def add_casualties_def Let_def)
  have c: "load_and_prepare_data example_draw 0 example_frame = Inl CannotConvertNaN"
    unfolding load_present [OF example_columns] example_frame_retained Let_def
    by (simp add: example_prepared_def df_sample_def example_draw_def)
  from a b c example_frame_retained show ?thesis by simp
qed




text \<open>
  C2 as it is stated does not hold: a \<^verbatim>\<open>True\<close> in a kill count of booleans is
  kept and counts as 1, and with two count columns of booleans the function raises at line
  37 where it returns two rows for the same file with numbers in the two columns.
\<close>

theorem boolean_counts_kept_counterexample:
  "map_sum id (map (\<lambda>r. (nkill r, num_val (nkill r), nwound r)))
     (load_and_prepare_data_typed example_draw 50000
        \<lparr> columns = required_cols, rows = example_bool_rows \<rparr>) =
     Inr [(Boolean True, 1, Float64 2), (Boolean False, 0, Float64 0)] \<and>
   load_and_prepare_data_typed example_draw 50000
     \<lparr> columns = required_cols, rows = example_two_bool_rows \<rparr> = Inl NotImplementedError \<and>
   map_sum id (map (\<lambda>r. (iyear r, targtype1_txt r)))
     (load_and_prepare_data_typed example_draw 50000
        \<lparr> columns = required_cols,
          rows = map (\<lambda>r. r \<lparr> nkill := Cell (Number 1), nwound := Cell (Number 0) \<rparr>)
                   example_two_bool_rows \<rparr>) =
     Inr [(2000, ''Military''), (2005, ''Police'')]"
  by (simp add: example_bool_load example_two_bool_load example_numbers_load)

text \<open>
  C2, amended. A kill or wound count that is missing, or a text that is not a number,
  becomes 0; a number stays what it is, and so does the integer of a column of integers and
  the boolean of a column of booleans. The rows that lines 28 to 32 keep are those that a
  test of the year and of the target type alone selects, each with its coerced counts. So
  the counts decide of no row: whatever stands in the two columns, the function, where it
  does not raise at line 37, fails alike or returns rows of the same years and target types
  in the same places.
\<close>

theorem counts_coerced_rows_kept:
  assumes "\<And>len k. k \<le> len \<Longrightarrow> valid_draw len k (draw len k)"
  shows "((\<forall>q. c \<noteq> Number q) \<longrightarrow> fillna_typed 0 (to_numeric_typed (Cell c)) = Float64 0) \<and>
         fillna_typed 0 (to_numeric_typed (Cell (Number q))) = Float64 q \<and>
         fillna_typed 0 (to_numeric_typed (IntCell i)) = Int64 i \<and>
         fillna_typed 0 (to_numeric_typed (BoolCell b)) = Boolean b \<and>
         map (\<lambda>r. (Number (iyear r), Some (targtype1_txt r), nkill r, nwound r)) (cleaned_typed rs) =
           map (\<lambda>r. (iyear r, targtype1_txt r,
                      fillna_typed 0 (to_numeric_typed (nkill r)),
                      fillna_typed 0 (to_numeric_typed (nwound r))))
             (filter (\<lambda>r. case iyear r of
                             Number y \<Rightarrow> 1900 < y \<and> targtype1_txt r \<noteq> None
                           | _ \<Rightarrow> False) rs) \<and>
         (load_and_prepare_data_typed draw sample_limit
            (df \<lparr> rows := map (\<lambda>r. r \<lparr> nkill := k r, nwound := w r \<rparr>) (rows df) \<rparr>) \<noteq>
            Inl NotImplementedError \<and>
          load_and_prepare_data_typed draw sample_limit df \<noteq> Inl NotImplementedError \<longrightarrow>
          map_sum id (map (\<lambda>r. (iyear r, targtype1_txt r)))
            (load_and_prepare_data_typed draw sample_limit
               (df \<lparr> rows := map (\<lambda>r. r \<lparr> nkill := k r, nwound := w r \<rparr>) (rows df) \<rparr>)) =
          map_sum id (map (\<lambda>r. (iyear r, targtype1_txt r)))
            (load_and_prepare_data_typed draw sample_limit df))"
proof -
  have a: "(\<forall>q. c \<noteq> Number q) \<longrightarrow> fillna_typed 0 (to_numeric_typed (Cell c)) = Float64 0"
    by (cases c) simp_all
  have b: "fillna_typed 0 (to_numeric_typed (Cell (Number q))) = Float64 q"
    "fillna_typed 0 (to_numeric_typed (IntCell i)) = Int64 i"
    "fillna_typed 0 (to_numeric_typed (BoolCell b)) = Boolean b"
    by simp_all
  have d: "map_sum id (map (\<lambda>r. (iyear r, targtype1_txt r)))
            (load_and_prepare_data_typed draw sample_limit
               (df \<lparr> rows := map (\<lambda>r. r \<lparr> nkill := k r, nwound := w r \<rparr>) (rows df) \<rparr>)) =
          map_sum id (map (\<lambda>r. (iyear r, targtype1_txt r)))
            (load_and_prepare_data_typed draw sample_limit df)"
    if "load_and_prepare_data_typed draw sample_limit
            (df \<lparr> rows := map (\<lambda>r. r \<lparr> nkill := k r, nwound := w r \<rparr>) (rows df) \<rparr>) \<noteq>
            Inl NotImplementedError"
      and "load_and_prepare_data_typed draw sample_limit df \<noteq> Inl NotImplementedError"
    using that by (intro load_typed_keys) (simp_all add: cleaned_typed_keys_upd assms)
  from a b cleaned_typed_core [of rs] d show ?thesis by blast
qed

theorem counts_coerced_rows_kept_witness:
  "load_and_prepare_data_typed example_draw 50000
     \<lparr> columns = required_cols, rows = example_bool_rows \<rparr> \<noteq> Inl NotImplementedError \<and>
   load_and_prepare_data_typed example_draw 50000
     \<lparr> columns = required_cols,
       rows = map (\<lambda>r. r \<lparr> nkill := Cell (Number 1), nwound := Cell (Number 0) \<rparr>)
                example_two_bool_rows \<rparr> \<noteq> Inl NotImplementedError \<and>
   map_sum id (map (\<lambda>r. (iyear r, targtype1_txt r)))
     (load_and_prepare_data_typed example_draw 50000
        \<lparr> columns = required_cols, rows = example_bool_rows \<rparr>) =
     Inr [(2000, ''Military''), (2005, ''Police'')] \<and>
   fillna_typed 0 (to_numeric_typed (Cell (Text ''many''))) = Float64 0"
proof -
  have same: "map (\<lambda>r. r \<lparr> nkill := Cell (Number 1), nwound := Cell (Number 0) \<rparr>) example_bool_rows =
              map (\<lambda>r. r \<lparr> nkill := Cell (Number 1), nwound := Cell (Number 0) \<rparr>) example_two_bool_rows"
    by (simp add: example_bool_rows_def example_two_bool_rows_def)
  show ?thesis
    using counts_coerced_rows_kept [OF example_draw_valid,
            where c = "Text ''many''" and sample_limit = 50000
              and df = "\<lparr> columns = required_cols, rows = example_bool_rows \<rparr>"
              and k = "\<lambda>r. Cell (Number 1)" and w = "\<lambda>r. Cell (Number 0)"]
    by (simp add: same example_bool_load example_numbers_load)
qed

text \<open>
  C7. For a frame with at least one row, \<open>create_visualization\<close> writes a page. The labels
  of its checkbox group are the target types of the frame, each once, and all are ticked.
  Its legend is bound to the column \<open>targtype1_txt\<close> of the source, and the labels of the
  legend are the target types of the frame, each once.
\<close>

theorem labels_are_distinct_targets:
  assumes "df \<noteq> []" and "Turbo256 pal \<noteq> []"
  shows "\<exists>pg. create_visualization pal df = Inr pg \<and>
           distinct (checkbox_labels pg) \<and>
           set (checkbox_labels pg) = set (map targtype1_txt df) \<and>
           checkbox_active pg = [0..<length (checkbox_labels pg)] \<and>
           legend_field pg = ''targtype1_txt'' \<and>
           (\<exists>labels. legend_labels pg = Some labels \<and> distinct labels \<and>
                     set labels = Some ` set (map targtype1_txt df))"
proof -
  obtain pg where pg: "create_visualization pal df = Inr pg"
    using create_visualization_total [OF assms] by blast
  from pg obtain color_map year_min year_max where
    src: "source pg = column_data (add_color color_map df)" and
    lab: "checkbox_labels pg = sort (unique (map targtype1_txt df))" and
    act: "checkbox_active pg = [0..<length (checkbox_labels pg)]" and
    leg: "legend_field pg = ''targtype1_txt''"
    by (rule create_visualization_page)
  have col: "targtype1_txt (source pg) = map Some (map targtype1_txt df)"
    by (simp add: src column_data_def add_color_def comp_def)
  have l: "legend_labels pg = Some (unique (map Some (map targtype1_txt df)))"
    by (simp add: legend_labels_def leg col)
  have "distinct (checkbox_labels pg)"
    by (simp add: lab distinct_unique)
  moreover have "set (checkbox_labels pg) = set (map targtype1_txt df)"
    by (simp add: lab set_unique)
  moreover have "distinct (unique (map Some (map targtype1_txt df)))"
    by (rule distinct_unique)
  moreover have "set (unique (map Some (map targtype1_txt df))) = Some ` set (map targtype1_txt df)"
    by (simp add: set_unique image_image)
  ultimately show ?thesis using pg act leg l by blast
qed

theorem labels_are_distinct_targets_witness:
  "example_prepared \<noteq> [] \<and> Turbo256 example_palettes \<noteq> [] \<and>
   map_sum id checkbox_labels (create_visualization example_palettes example_prepared) =
     Inr [''Business'', ''Military'', ''Police''] \<and>
   map_sum id legend_labels (create_visualization example_palettes example_prepared) =
     Inr (Some [Some ''Military'', Some ''Police'', Some ''Business''])"
  using labels_are_distinct_targets [of example_prepared example_palettes]
  by (simp add: example_visualization)
     (simp add: example_prepared_def example_palettes_def example_page_def legend_labels_def
        column_data_def example_points_def)

end
